theory Spec2Isabelle
  imports Main "HOL-Library.AList"
begin

section \<open>JSON objects, string constants\<close>

text \<open>
  A JavaScript object with string keys is an association list in insertion order:
  \<open>o[k]\<close> is \<open>map_of o k\<close>, \<open>o[k] = v\<close> is \<open>AList.update k v o\<close> (in place when the
  key is present, appended otherwise), \<open>delete o[k]\<close> is \<open>AList.delete k o\<close> and
  \<open>Object.keys(o)\<close> is \<open>map fst o\<close>. A \<open>Map\<close> filled by \<open>set\<close> and read by \<open>get\<close> is modelled
  the same way.
\<close>

datatype jval = JStr string | JBool bool | JNum int | JNull

type_synonym obj = "(string \<times> jval) list"

type_synonym env_state = "(string \<times> obj) list"

text \<open>JavaScript truthiness of a property that may be absent.\<close>

fun truthy :: "jval option \<Rightarrow> bool" where
  "truthy None = False"
| "truthy (Some (JStr s)) = (s \<noteq> [])"
| "truthy (Some (JBool b)) = b"
| "truthy (Some (JNum n)) = (n \<noteq> 0)"
| "truthy (Some JNull) = False"

text \<open>
  \<open>ComponentNames\<close> and \<open>V1PluginNames\<close> are declared in \<open>component/constants.ts\<close>, which
  is not among the source files: the functions below take the two tables as parameters.
\<close>

record component_names =
  TeamsTab :: string
  TeamsBot :: string
  TeamsApi :: string
  AppManifest :: string
  AadApp :: string
  AzureWebApp :: string
  AzureStorage :: string
  BotService :: string
  Identity :: string
  APIM :: string
  KeyVault :: string
  AzureSQL :: string
  Function :: string
  SimpleAuth :: string

record v1_plugin_names =
  appStudio :: string
  aad :: string
  bot :: string
  function_plugin :: string
  frontend :: string
  apim :: string
  identity :: string
  keyVault :: string
  sql :: string
  simpleAuth :: string

text \<open>
  The values the tables have in the repository, as far as the sources show them: the
  literals \<open>teams-tab\<close>, \<open>teams-bot\<close>, \<open>aad-app\<close>, \<open>azure-storage\<close>, \<open>azure-web-app\<close>,
  \<open>azure-function\<close> of the component code and its tests, and the \<open>fx-resource-*\<close> keys
  of \<open>EnvStateV2\<close>. They instantiate the parameters in the concrete examples.
\<close>

definition teamsfx_components :: component_names where
  "teamsfx_components =
     \<lparr> TeamsTab = ''teams-tab'', TeamsBot = ''teams-bot'', TeamsApi = ''teams-api'',
       AppManifest = ''app-manifest'', AadApp = ''aad-app'', AzureWebApp = ''azure-web-app'',
       AzureStorage = ''azure-storage'', BotService = ''bot-service'', Identity = ''identity'',
       APIM = ''apim'', KeyVault = ''key-vault'', AzureSQL = ''azure-sql'',
       Function = ''azure-function'', SimpleAuth = ''simple-auth'' \<rparr>"

definition teamsfx_plugins :: v1_plugin_names where
  "teamsfx_plugins =
     \<lparr> appStudio = ''fx-resource-appstudio'', aad = ''fx-resource-aad-app-for-teams'',
       bot = ''fx-resource-bot'', function_plugin = ''fx-resource-function'',
       frontend = ''fx-resource-frontend-hosting'', apim = ''fx-resource-apim'',
       identity = ''fx-resource-identity'', keyVault = ''fx-resource-key-vault'',
       sql = ''fx-resource-azure-sql'', simpleAuth = ''fx-resource-simple-auth'' \<rparr>"

section \<open>component/migrate.ts: environment state\<close>

definition EnvStateMigrationComponentNames :: "component_names \<Rightarrow> (string \<times> string) list" where
  "EnvStateMigrationComponentNames CN =
     [ (''solution'', ''solution''),
       (''fx-resource-appstudio'', AppManifest CN),
       (''fx-resource-identity'', Identity CN),
       (''fx-resource-azure-sql'', AzureSQL CN),
       (''fx-resource-aad-app-for-teams'', AadApp CN),
       (''fx-resource-function'', TeamsApi CN),
       (''fx-resource-apim'', APIM CN),
       (''fx-resource-key-vault'', KeyVault CN),
       (''fx-resource-bot'', TeamsBot CN),
       (''fx-resource-frontend-hosting'', TeamsTab CN) ]"

text \<open>\<open>EnvStateMigrationComponentNames.forEach((e) => map.set(e[0], e[1]))\<close> and its mirror.\<close>

definition plugin2component :: "component_names \<Rightarrow> (string \<times> string) list" where
  "plugin2component CN =
     fold (\<lambda>e m. AList.update (fst e) (snd e) m) (EnvStateMigrationComponentNames CN) []"

definition component2plugin :: "component_names \<Rightarrow> (string \<times> string) list" where
  "component2plugin CN =
     fold (\<lambda>e m. AList.update (snd e) (fst e) m) (EnvStateMigrationComponentNames CN) []"

text \<open>
  One iteration of the loop over \<open>Object.keys(source)\<close>: the entry is copied under the
  mapped name when the table has a (non-empty) name for the key, and skipped otherwise.
\<close>

definition migrate_step ::
  "(string \<times> string) list \<Rightarrow> (string \<times> 'v) list \<Rightarrow> string \<Rightarrow>
     (string \<times> 'v) list \<Rightarrow> (string \<times> 'v) list" where
  "migrate_step table source key target =
     (case map_of table key of
        None \<Rightarrow> target
      | Some name \<Rightarrow>
          if name \<noteq> [] then
            (case map_of source key of
               Some v \<Rightarrow> AList.update name v target
             | None \<Rightarrow> target)
          else target)"

definition convertEnvStateV3ToV2 ::
  "component_names \<Rightarrow> (string \<times> 'v) list \<Rightarrow> (string \<times> 'v) list" where
  "convertEnvStateV3ToV2 CN envStateV3 =
     fold (migrate_step (component2plugin CN) envStateV3) (map fst envStateV3) []"

definition convertEnvStateV2ToV3 ::
  "component_names \<Rightarrow> (string \<times> 'v) list \<Rightarrow> (string \<times> 'v) list" where
  "convertEnvStateV2ToV3 CN envStateV2 =
     fold (migrate_step (plugin2component CN) envStateV2) (map fst envStateV2) []"

section \<open>Results, errors and rendered values\<close>

text \<open>
  \<open>FxError\<close> values carry a source, a name and a message. A function of the repository
  ends in one of three ways: it returns \<open>ok(v)\<close>, it returns \<open>err(e)\<close>, or a JavaScript
  exception escapes it (reading a property of \<open>undefined\<close>).
\<close>

datatype fx_error = UserError string string string | SystemError string string string

datatype js_exn = TypeError

datatype 'a res = Ok 'a | Err fx_error | Throw js_exn

fun error_name :: "fx_error \<Rightarrow> string" where
  "error_name (UserError source name message) = name"
| "error_name (SystemError source name message) = name"

fun error_message :: "fx_error \<Rightarrow> string" where
  "error_message (UserError source name message) = message"
| "error_message (SystemError source name message) = message"

fun is_user_error :: "fx_error \<Rightarrow> bool" where
  "is_user_error (UserError source name message) = True"
| "is_user_error (SystemError source name message) = False"

text \<open>A value inside a template literal \<open>${v}\<close>.\<close>

fun decimal :: "nat \<Rightarrow> string" where
  "decimal n =
     (if n < 10 then [char_of (48 + n)] else decimal (n div 10) @ [char_of (48 + n mod 10)])"

fun js_string :: "jval option \<Rightarrow> string" where
  "js_string None = ''undefined''"
| "js_string (Some (JStr s)) = s"
| "js_string (Some (JBool b)) = (if b then ''true'' else ''false'')"
| "js_string (Some (JNum n)) = (if n < 0 then ''-'' @ decimal (nat (- n)) else decimal (nat n))"
| "js_string (Some JNull) = ''null''"

text \<open>A config value of type \<open>string | undefined\<close>: truthy when present and not empty.\<close>

definition truthyS :: "string option \<Rightarrow> bool" where
  "truthyS v = (case v of None \<Rightarrow> False | Some s \<Rightarrow> s \<noteq> [])"

definition getField :: "env_state \<Rightarrow> string \<Rightarrow> string \<Rightarrow> jval option" where
  "getField st component field =
     (case map_of st component of None \<Rightarrow> None | Some ob \<Rightarrow> map_of ob field)"

section \<open>component/provision.ts: subscription check\<close>

record SubscriptionInfo =
  subscriptionId :: string
  subscriptionName :: string
  tenantId :: string

record azure_config =
  azure_subscriptionId :: "string option"
  azure_subscriptionName :: "string option"
  azure_resourceGroupName :: "string option"
  azure_resourceNameSuffix :: "string option"

record env_config =
  azure :: "azure_config option"

record ResourceGroupInfo =
  createNewResourceGroup :: bool
  rg_name :: string
  rg_location :: string

datatype platform = VS | VSCode | CLI

record inputs =
  projectPath :: "string option"
  inputs_env :: "string option"
  inputs_envName :: "string option"
  platform :: platform
  targetResourceGroupName :: "string option"
  targetResourceLocationName :: "string option"
  isForUT :: bool

text \<open>
  The collaborators of \<open>fillInAzureConfigs\<close>, as what they answer in one run: the Azure
  account provider, \<open>resourceGroupHelper\<close> (its functions take the resource-management
  client, built for the subscription id in the state, and a name), \<open>uuidv4()\<close>, the
  snake-cased alphanumeric application name, and
  \<open>EnvConfigFileNameTemplate.replace(EnvNamePlaceholder, name)\<close>. Telemetry and logging
  change neither the result nor the state and are left out.
\<close>

record azure_token =
  username :: "string option"

record azure_world =
  getSelectedSubscription :: "SubscriptionInfo option"
  listSubscriptions :: "SubscriptionInfo list"
  getAccountCredentialAsync :: "azure_token option"
  getResourceGroupInfo :: "string \<Rightarrow> string \<Rightarrow> ResourceGroupInfo option res"
  checkResourceGroupExistence :: "string \<Rightarrow> string \<Rightarrow> bool res"
  askResourceGroupInfo :: "string \<Rightarrow> string \<Rightarrow> ResourceGroupInfo res"
  uuidv4 :: string
  snakeCaseAppName :: string
  envConfigFileName :: "string option \<Rightarrow> string"

definition updateEnvInfoSubscription :: "env_state \<Rightarrow> SubscriptionInfo \<Rightarrow> unit res \<times> env_state" where
  "updateEnvInfoSubscription st subscriptionInfo =
     (case map_of st ''solution'' of
        None \<Rightarrow> (Throw TypeError, st)
      | Some solution \<Rightarrow>
          (Ok (),
           AList.update ''solution''
             (AList.update ''tenantId'' (JStr (tenantId subscriptionInfo))
               (AList.update ''subscriptionName'' (JStr (subscriptionName subscriptionInfo))
                 (AList.update ''subscriptionId'' (JStr (subscriptionId subscriptionInfo))
                   solution)))
             st))"

definition keysToClear :: "v1_plugin_names \<Rightarrow> component_names \<Rightarrow> string list" where
  "keysToClear V1 CN =
     [ bot V1, frontend V1, function_plugin V1, identity V1, keyVault V1, sql V1, simpleAuth V1,
       TeamsBot CN, TeamsTab CN, TeamsApi CN, Identity CN, KeyVault CN, AzureSQL CN ]"

definition keysToModify :: "v1_plugin_names \<Rightarrow> component_names \<Rightarrow> string list" where
  "keysToModify V1 CN = [apim V1, APIM CN]"

text \<open>
  The body of the loop \<open>for (const key of keys)\<close> of \<open>clearEnvInfoStateResource\<close>:
  \<open>delete envInfo.state[key]["serviceResourceId"]\<close> throws when the entry is gone.
\<close>

definition clear_step ::
  "v1_plugin_names \<Rightarrow> component_names \<Rightarrow> string \<Rightarrow> env_state \<Rightarrow> unit res \<times> env_state" where
  "clear_step V1 CN key st =
     (let st1 = (if key \<in> set (keysToClear V1 CN) then AList.delete key st else st)
      in if key \<in> set (keysToModify V1 CN) then
           (case map_of st1 key of
              None \<Rightarrow> (Throw TypeError, st1)
            | Some ob \<Rightarrow> (Ok (), AList.update key (AList.delete ''serviceResourceId'' ob) st1))
         else (Ok (), st1))"

fun clear_loop ::
  "v1_plugin_names \<Rightarrow> component_names \<Rightarrow> string list \<Rightarrow> env_state \<Rightarrow> unit res \<times> env_state" where
  "clear_loop V1 CN [] st = (Ok (), st)"
| "clear_loop V1 CN (key # keys) st =
     (case clear_step V1 CN key st of
        (Ok u, st') \<Rightarrow> clear_loop V1 CN keys st'
      | (Err e, st') \<Rightarrow> (Err e, st')
      | (Throw x, st') \<Rightarrow> (Throw x, st'))"

definition clearEnvInfoStateResource ::
  "v1_plugin_names \<Rightarrow> component_names \<Rightarrow> env_state \<Rightarrow> unit res \<times> env_state" where
  "clearEnvInfoStateResource V1 CN st =
     (case map_of st ''solution'' of
        None \<Rightarrow> (Throw TypeError, st)
      | Some solution \<Rightarrow>
          (let st0 = AList.update ''solution''
                       (AList.update ''resourceNameSuffix'' (JStr [])
                         (AList.update ''resourceGroupName'' (JStr []) solution))
                       st
           in clear_loop V1 CN (map fst st0) st0))"

record ProvisionSubscriptionCheckResult =
  hasSwitchedSubscription :: bool

definition compareWithStateSubscription ::
  "v1_plugin_names \<Rightarrow> component_names \<Rightarrow> env_state \<Rightarrow> SubscriptionInfo \<Rightarrow> jval option
     \<Rightarrow> ProvisionSubscriptionCheckResult res \<times> env_state" where
  "compareWithStateSubscription V1 CN st targetSubscriptionInfo subscriptionInStateId =
     (let switched = (truthy subscriptionInStateId
                       \<and> Some (JStr (subscriptionId targetSubscriptionInfo)) \<noteq> subscriptionInStateId)
      in if switched then
           (case updateEnvInfoSubscription st targetSubscriptionInfo of
              (Ok u, st1) \<Rightarrow>
                (case clearEnvInfoStateResource V1 CN st1 of
                   (Ok u', st2) \<Rightarrow> (Ok \<lparr> hasSwitchedSubscription = True \<rparr>, st2)
                 | (Err e, st2) \<Rightarrow> (Err e, st2)
                 | (Throw x, st2) \<Rightarrow> (Throw x, st2))
            | (Err e, st1) \<Rightarrow> (Err e, st1)
            | (Throw x, st1) \<Rightarrow> (Throw x, st1))
         else
           (case updateEnvInfoSubscription st targetSubscriptionInfo of
              (Ok u, st1) \<Rightarrow> (Ok \<lparr> hasSwitchedSubscription = False \<rparr>, st1)
            | (Err e, st1) \<Rightarrow> (Err e, st1)
            | (Throw x, st1) \<Rightarrow> (Throw x, st1)))"

definition update_and_pass ::
  "env_state \<Rightarrow> SubscriptionInfo \<Rightarrow> ProvisionSubscriptionCheckResult res \<times> env_state" where
  "update_and_pass st subscriptionInfo =
     (case updateEnvInfoSubscription st subscriptionInfo of
        (Ok u, st1) \<Rightarrow> (Ok \<lparr> hasSwitchedSubscription = False \<rparr>, st1)
      | (Err e, st1) \<Rightarrow> (Err e, st1)
      | (Throw x, st1) \<Rightarrow> (Throw x, st1))"

definition checkProvisionSubscriptionWhenSwitchAccountEnabled ::
  "v1_plugin_names \<Rightarrow> component_names \<Rightarrow> azure_world \<Rightarrow> string \<Rightarrow> env_config \<Rightarrow> env_state
     \<Rightarrow> ProvisionSubscriptionCheckResult res \<times> env_state" where
  "checkProvisionSubscriptionWhenSwitchAccountEnabled V1 CN W envName cfg st =
     (case map_of st ''solution'' of
        None \<Rightarrow> (Throw TypeError, st)
      | Some solution \<Rightarrow>
          (let subscriptionIdInConfig =
                 (case azure cfg of None \<Rightarrow> None | Some a \<Rightarrow> azure_subscriptionId a);
               subscriptionNameInConfig =
                 (case azure cfg of
                    None \<Rightarrow> subscriptionIdInConfig
                  | Some a \<Rightarrow>
                      if truthyS (azure_subscriptionName a) then azure_subscriptionName a
                      else subscriptionIdInConfig);
               subscriptionIdInState = map_of solution ''subscriptionId'';
               subscriptionNameInState =
                 (if truthy (map_of solution ''subscriptionName'')
                  then map_of solution ''subscriptionName'' else subscriptionIdInState);
               subscriptionInAccount = getSelectedSubscription W
           in if \<not> truthy subscriptionIdInState \<and> \<not> truthyS subscriptionIdInConfig then
                (case subscriptionInAccount of
                   None \<Rightarrow>
                     (Err (UserError ''core'' ''SubscriptionNotFound'' ''Failed to select subscription''),
                      st)
                 | Some account \<Rightarrow> update_and_pass st account)
              else if truthyS subscriptionIdInConfig then
                (case find (\<lambda>item. Some (subscriptionId item) = subscriptionIdInConfig)
                        (listSubscriptions W) of
                   None \<Rightarrow>
                     (Err (UserError ''core'' ''SubscriptionNotFound''
                        (''The subscription '' @ [CHR 0x27] @ js_string (map_option JStr subscriptionIdInConfig)
                         @ [CHR 0x27] @ ''('' @ js_string (map_option JStr subscriptionNameInConfig)
                         @ '') for '' @ [CHR 0x27] @ envName @ [CHR 0x27]
                         @ '' environment is not found in the current account, please use the right Azure account or check the ''
                         @ [CHR 0x27] @ envConfigFileName W (Some envName) @ [CHR 0x27] @ '' file.'')),
                      st)
                 | Some targetConfigSubInfo \<Rightarrow>
                     compareWithStateSubscription V1 CN st targetConfigSubInfo subscriptionIdInState)
              else
                (let targetStateSubInfo =
                       find (\<lambda>item. Some (JStr (subscriptionId item)) = subscriptionIdInState)
                         (listSubscriptions W)
                 in case subscriptionInAccount of
                      None \<Rightarrow>
                        (case targetStateSubInfo of
                           Some target \<Rightarrow> update_and_pass st target
                         | None \<Rightarrow>
                             (Err (UserError ''core'' ''SubscriptionNotFound''
                                (''The subscription '' @ [CHR 0x27] @ js_string subscriptionIdInState
                                 @ [CHR 0x27] @ ''('' @ js_string subscriptionNameInState
                                 @ '') for '' @ [CHR 0x27] @ envName @ [CHR 0x27]
                                 @ '' environment is not found in the current account, please use the right Azure account.'')),
                              st))
                    | Some account \<Rightarrow>
                        compareWithStateSubscription V1 CN st account subscriptionIdInState)))"

section \<open>component/provision.ts: fillInAzureConfigs\<close>

text \<open>
  The chain that picks the resource group (the comment in the source numbers the
  sources 0 to 4). Values read from the state are rendered as strings: the declared
  type of \<open>resourceGroupName\<close> and \<open>location\<close> is \<open>string\<close>.
\<close>

definition resolveResourceGroup ::
  "azure_world \<Rightarrow> inputs \<Rightarrow> string \<Rightarrow> env_config \<Rightarrow> env_state \<Rightarrow> ResourceGroupInfo res" where
  "resolveResourceGroup W inp envName cfg st =
     (let rmClient = js_string (getField st ''solution'' ''subscriptionId'');
          resourceGroupNameFromEnvConfig =
            (case azure cfg of None \<Rightarrow> None | Some a \<Rightarrow> azure_resourceGroupName a);
          resourceGroupNameFromState = getField st ''solution'' ''resourceGroupName'';
          resourceGroupLocationFromState = getField st ''solution'' ''location'';
          defaultResourceGroupName = snakeCaseAppName W @ ''-'' @ envName @ ''-rg''
      in if truthyS (targetResourceGroupName inp) then
           (case getResourceGroupInfo W rmClient (the (targetResourceGroupName inp)) of
              Err e \<Rightarrow>
                if platform inp = VS \<and> truthyS (targetResourceLocationName inp) then
                  Ok \<lparr> createNewResourceGroup = True,
                       rg_name = the (targetResourceGroupName inp),
                       rg_location = the (targetResourceLocationName inp) \<rparr>
                else Err e
            | Throw x \<Rightarrow> Throw x
            | Ok None \<Rightarrow>
                Err (UserError ''core'' ''ResourceGroupNotFound''
                  (''Resource group '' @ [CHR 0x27] @ the (targetResourceGroupName inp) @ [CHR 0x27]
                   @ '' does not exist, please specify an existing resource group.''))
            | Ok (Some info) \<Rightarrow> Ok info)
         else if truthyS resourceGroupNameFromEnvConfig then
           (case getResourceGroupInfo W rmClient (the resourceGroupNameFromEnvConfig) of
              Err e \<Rightarrow> Err e
            | Throw x \<Rightarrow> Throw x
            | Ok None \<Rightarrow>
                Err (UserError ''core'' ''ResourceGroupNotFound''
                  (''Resource group '' @ [CHR 0x27] @ the resourceGroupNameFromEnvConfig @ [CHR 0x27]
                   @ '' does not exist, please check your '' @ [CHR 0x27]
                   @ envConfigFileName W (inputs_envName inp) @ [CHR 0x27] @ '' file.''))
            | Ok (Some info) \<Rightarrow> Ok info)
         else if truthy resourceGroupNameFromState \<and> truthy resourceGroupLocationFromState then
           (case checkResourceGroupExistence W rmClient (js_string resourceGroupNameFromState) of
              Err e \<Rightarrow> Err e
            | Throw x \<Rightarrow> Throw x
            | Ok exist \<Rightarrow>
                Ok \<lparr> createNewResourceGroup = \<not> exist,
                     rg_name = js_string resourceGroupNameFromState,
                     rg_location = js_string resourceGroupLocationFromState \<rparr>)
         else askResourceGroupInfo W rmClient defaultResourceGroupName)"

text \<open>
  \<open>(config.azure?.resourceNameSuffix as string) || state.solution.resourceNameSuffix
  || uuidv4().substr(0, 6)\<close>.
\<close>

definition resourceNameSuffixFor :: "azure_world \<Rightarrow> env_config \<Rightarrow> obj \<Rightarrow> jval" where
  "resourceNameSuffixFor W cfg solution =
     (let fromConfig = (case azure cfg of None \<Rightarrow> None | Some a \<Rightarrow> azure_resourceNameSuffix a)
      in if truthyS fromConfig then JStr (the fromConfig)
         else if truthy (map_of solution ''resourceNameSuffix'')
         then the (map_of solution ''resourceNameSuffix'')
         else JStr (take 6 (uuidv4 W)))"

definition fillInAzureConfigs ::
  "v1_plugin_names \<Rightarrow> component_names \<Rightarrow> azure_world \<Rightarrow> inputs \<Rightarrow> string \<Rightarrow> env_config
     \<Rightarrow> env_state \<Rightarrow> ProvisionSubscriptionCheckResult res \<times> env_state" where
  "fillInAzureConfigs V1 CN W inp envName cfg st =
     (case checkProvisionSubscriptionWhenSwitchAccountEnabled V1 CN W envName cfg st of
        (Err e, st1) \<Rightarrow> (Err e, st1)
      | (Throw x, st1) \<Rightarrow> (Throw x, st1)
      | (Ok subscriptionResult, st1) \<Rightarrow>
          (case getAccountCredentialAsync W of
             None \<Rightarrow>
               (Err (UserError ''core'' ''NotLoginToAzure''
                  ''Login to Azure using the Azure Account extension''), st1)
           | Some azureToken \<Rightarrow>
               (case map_of st1 ''solution'' of
                  None \<Rightarrow> (Throw TypeError, st1)
                | Some solution \<Rightarrow>
                    (case resolveResourceGroup W inp envName cfg st1 of
                       Err e \<Rightarrow> (Err e, st1)
                     | Throw x \<Rightarrow> (Throw x, st1)
                     | Ok resourceGroupInfo \<Rightarrow>
                         (let solution1 =
                                AList.update ''location'' (JStr (rg_location resourceGroupInfo))
                                  (AList.update ''resourceGroupName'' (JStr (rg_name resourceGroupInfo))
                                    (AList.update ''needCreateResourceGroup''
                                       (JBool (createNewResourceGroup resourceGroupInfo)) solution));
                              solution2 =
                                AList.update ''resourceNameSuffix''
                                  (resourceNameSuffixFor W cfg solution1) solution1
                          in (Ok \<lparr> hasSwitchedSubscription =
                                      hasSwitchedSubscription subscriptionResult \<rparr>,
                              AList.update ''solution'' solution2 st1))))))"

section \<open>component/provision.ts: getM365TenantId\<close>

text \<open>
  The token provider of Microsoft 365, as what it answers in one run, and the strings of
  \<open>localizeUtils\<close> (\<open>getDefaultString\<close>, \<open>getLocalizedString\<close> with its arguments), which are
  not among the source files.
\<close>

record token_json =
  tid :: "jval option"
  upn :: "string option"

record m365_world =
  m365_getAccessToken :: "string res"
  m365_getJsonObject :: "token_json option res"

record M365TenantRes =
  tenantIdInToken :: string
  tenantUserName :: "string option"

record localize =
  getDefaultString :: "string \<Rightarrow> string"
  getLocalizedString :: "string \<Rightarrow> string list \<Rightarrow> string"

definition getM365TenantId :: "localize \<Rightarrow> m365_world \<Rightarrow> M365TenantRes res" where
  "getM365TenantId L M =
     (case m365_getAccessToken M of
        Err e \<Rightarrow> Err e
      | Throw x \<Rightarrow> Throw x
      | Ok token \<Rightarrow>
          (case m365_getJsonObject M of
             Throw x \<Rightarrow> Throw x
           | Err e \<Rightarrow>
               Err (SystemError ''core'' ''NoAppStudioToken'' (getDefaultString L ''error.NoAppStudioToken''))
           | Ok None \<Rightarrow>
               Err (SystemError ''core'' ''NoAppStudioToken'' (getDefaultString L ''error.NoAppStudioToken''))
           | Ok (Some appStudioTokenJson) \<Rightarrow>
               (case tid appStudioTokenJson of
                  Some (JStr t) \<Rightarrow>
                    if t \<noteq> [] then
                      Ok \<lparr> tenantIdInToken = t, tenantUserName = upn appStudioTokenJson \<rparr>
                    else Err (SystemError ''core'' ''NoTeamsAppTenantId''
                                (getDefaultString L ''error.NoTeamsAppTenantId''))
                | _ \<Rightarrow>
                    Err (SystemError ''core'' ''NoTeamsAppTenantId''
                           (getDefaultString L ''error.NoTeamsAppTenantId'')))))"

section \<open>solution/fx-solution/v2/provision.ts: the consent dialog\<close>

text \<open>
  Constants of \<open>fx-solution/constants.ts\<close> (not among the source files) are parameters:
  \<open>SolutionSource\<close>, the two names of \<open>SolutionError\<close> the function uses,
  \<open>PluginNames.APPST\<close>, \<open>Constants.TEAMS_APP_ID\<close> and \<open>ARM_TEMPLATE_OUTPUT\<close>.
  \<open>GLOBAL_CONFIG\<close> and \<open>SOLUTION_PROVISION_SUCCEEDED\<close> are written \<open>solution\<close> and
  \<open>provisionSucceeded\<close>: the function itself reads \<open>envInfo.state.solution\<close>, and its
  tests read the flag as \<open>state.solution.provisionSucceeded\<close>.
\<close>

record solution_constants =
  SolutionSource :: string
  InternelError :: string
  TeamsAppTenantIdNotRight :: string
  APPST :: string
  TEAMS_APP_ID :: string
  ARM_TEMPLATE_OUTPUT :: string

text \<open>
  What the user interface does in a run: \<open>showMessage\<close> is asked for the \<open>n\<close>-th time
  and answers with the chosen item, or with nothing (an error, or the dialog dismissed).
  The two effects of the dialog are logged.
\<close>

datatype ui_event = ShowMessage string "string list" | OpenUrl string

definition provisionDocUrl :: string where
  "provisionDocUrl = ''https://docs.microsoft.com/en-us/microsoftteams/platform/toolkit/provision''"

text \<open>
  The \<open>do ... while (confirm === learnMoreText)\<close> loop. It runs for as long as the user
  answers "learn more", so it is a partial function: \<open>None\<close> stands for a dialog that never
  ends.
\<close>

partial_function (option) consentLoop ::
  "solution_constants \<Rightarrow> (nat \<Rightarrow> string option) \<Rightarrow> string \<Rightarrow> string list \<Rightarrow> string \<Rightarrow> string
     \<Rightarrow> nat \<Rightarrow> ui_event list \<Rightarrow> (unit res \<times> ui_event list) option" where
  "consentLoop SC answers message items provisionText learnMoreText n log =
     (let confirm = answers n;
          log1 = log @ [ShowMessage message items]
      in if confirm \<noteq> Some provisionText then
           (if confirm = Some learnMoreText then
              (if confirm = Some learnMoreText
               then consentLoop SC answers message items provisionText learnMoreText (Suc n)
                      (log1 @ [OpenUrl provisionDocUrl])
               else Some (Ok (), log1 @ [OpenUrl provisionDocUrl]))
            else Some (Err (UserError (SolutionSource SC) ''CancelProvision'' ''CancelProvision''), log1))
         else if confirm = Some learnMoreText
         then consentLoop SC answers message items provisionText learnMoreText (Suc n) log1
         else Some (Ok (), log1))"

declare consentLoop.simps [code]

definition switchedNotice ::
  "v1_plugin_names \<Rightarrow> component_names \<Rightarrow> localize \<Rightarrow> env_state \<Rightarrow> bool \<Rightarrow> bool \<Rightarrow> string" where
  "switchedNotice V1 CN L st switchedM365Tenant switchedSubscription =
     (if switchedM365Tenant \<and> switchedSubscription then
        getLocalizedString L ''core.provision.switchedM365AccountAndAzureSubscriptionNotice'' []
      else if switchedM365Tenant \<and> \<not> switchedSubscription then
        getLocalizedString L ''core.provision.switchedM365AccountNotice'' []
      else if \<not> switchedM365Tenant \<and> switchedSubscription then
        (let botResource =
               (case map_of st (bot V1) of Some b \<Rightarrow> Some b | None \<Rightarrow> map_of st (TeamsBot CN));
             newBotNotice =
               (case botResource of
                  None \<Rightarrow> []
                | Some b \<Rightarrow>
                    if truthy (map_of b ''resourceId'')
                    then getLocalizedString L ''core.provision.createNewAzureBotNotice'' []
                    else [])
         in getLocalizedString L ''core.provision.switchedAzureSubscriptionNotice'' [] @ newBotNotice)
      else [])"

definition join_lines :: "string list \<Rightarrow> string" where
  "join_lines xs = concat (butlast (concat (map (\<lambda>x. [x, [CHR 0x0A]]) xs)))"

definition consentMessage ::
  "v1_plugin_names \<Rightarrow> component_names \<Rightarrow> localize \<Rightarrow> azure_token \<Rightarrow> string \<Rightarrow> env_state
     \<Rightarrow> bool \<Rightarrow> bool \<Rightarrow> string option \<Rightarrow> bool \<Rightarrow> string" where
  "consentMessage V1 CN L azureToken envName st switchedM365Tenant switchedSubscription
       m365AccountName withAzureResource =
     (let user = (if truthyS (username azureToken) then the (username azureToken) else []);
          subId = (if truthy (getField st ''solution'' ''subscriptionId'')
                   then js_string (getField st ''solution'' ''subscriptionId'') else []);
          subName = (if truthy (getField st ''solution'' ''subscriptionName'')
                     then js_string (getField st ''solution'' ''subscriptionName'') else []);
          m365TenantId = (if truthy (getField st ''solution'' ''teamsAppTenantId'')
                          then js_string (getField st ''solution'' ''teamsAppTenantId'') else []);
          notice = switchedNotice V1 CN L st switchedM365Tenant switchedSubscription;
          azureAccountInfo = getLocalizedString L ''core.provision.azureAccount'' [user];
          azureSubscriptionInfo =
            getLocalizedString L ''core.provision.azureSubscription''
              [if subName \<noteq> [] then subName else subId];
          m365AccountInfo =
            getLocalizedString L ''core.provision.m365Account''
              [if truthyS m365AccountName then the m365AccountName else m365TenantId];
          accountsInfo =
            (if notice = [] \<and> withAzureResource
             then join_lines [azureAccountInfo, azureSubscriptionInfo, m365AccountInfo]
             else if withAzureResource
             then join_lines [notice, azureAccountInfo, azureSubscriptionInfo, m365AccountInfo]
             else join_lines [notice, m365AccountInfo]);
          confirmMsg =
            (if withAzureResource
             then getLocalizedString L ''core.provision.confirmEnvAndCostNotice'' [envName]
             else if switchedM365Tenant
             then getLocalizedString L ''core.provision.confirmEnvOnlyNotice'' [envName]
             else [])
      in accountsInfo @ [CHR 0x0A, CHR 0x0A] @ confirmMsg)"

text \<open>
  \<open>askForProvisionConsentNew\<close>. Reading \<open>username\<close> of a missing credential throws; with no
  switch notice and no Azure resource there is no dialog. The previous tenant and
  subscription ids go to telemetry only and are left out.
\<close>

definition askForProvisionConsentNew ::
  "solution_constants \<Rightarrow> v1_plugin_names \<Rightarrow> component_names \<Rightarrow> localize
     \<Rightarrow> (nat \<Rightarrow> string option) \<Rightarrow> azure_world \<Rightarrow> string \<Rightarrow> env_state
     \<Rightarrow> bool \<Rightarrow> bool \<Rightarrow> string option \<Rightarrow> bool \<Rightarrow> (unit res \<times> ui_event list) option" where
  "askForProvisionConsentNew SC V1 CN L answers W envName st switchedM365Tenant switchedSubscription
       m365AccountName withAzureResource =
     (case getAccountCredentialAsync W of
        None \<Rightarrow> Some (Throw TypeError, [])
      | Some azureToken \<Rightarrow>
          if switchedNotice V1 CN L st switchedM365Tenant switchedSubscription = []
             \<and> \<not> withAzureResource
          then Some (Ok (), [])
          else
            consentLoop SC answers
              (consentMessage V1 CN L azureToken envName st switchedM365Tenant switchedSubscription
                 m365AccountName withAzureResource)
              (if switchedM365Tenant \<or> switchedSubscription
               then [getLocalizedString L ''core.provision.provision'' [],
                     getLocalizedString L ''core.provision.learnMore'' []]
               else [getLocalizedString L ''core.provision.provision'' []])
              (getLocalizedString L ''core.provision.provision'' [])
              (getLocalizedString L ''core.provision.learnMore'' [])
              0 [])"

section \<open>solution/fx-solution/v2/provision.ts: provisionResource\<close>

text \<open>
  The collaborators of \<open>provisionResourceImpl\<close> that are not among the source files, as
  what they do in one run. Those that receive \<open>envInfo\<close> may change its state and are
  functions of the state. \<open>provisionPlugins\<close> and \<open>configurePlugins\<close> are the names of the
  selected plugins that implement the phase; \<open>executeConcurrently\<close> runs the thunks of a
  phase and reports \<open>success\<close>, \<open>partialSuccess\<close> or \<open>failure\<close>;
  \<open>setApplicationInContext\<close> is present when the AAD plugin is selected and has a user
  task. Telemetry, logging, \<open>globalVars\<close> and the final notification change neither the
  result nor the state and are left out.
\<close>

datatype exec_result = Success | PartialSuccess fx_error | Failure fx_error

record provision_world =
  doesAllowSwitchAccount :: bool
  isAzureProject :: bool
  hasAzureResource :: bool
  hasAAD :: bool
  ensurePermissionRequest :: "unit res"
  hasBotServiceCreated :: "env_state \<Rightarrow> bool"
  resetEnvInfoWhenSwitchM365 :: "env_state \<Rightarrow> env_state"
  rgCreateNewResourceGroup :: "string \<Rightarrow> string \<Rightarrow> string \<Rightarrow> unit res"
  handleConfigFilesWhenSwitchAccount :: "env_state \<Rightarrow> bool \<Rightarrow> bool \<Rightarrow> bool \<Rightarrow> unit res \<times> env_state"
  provisionPlugins :: "string list"
  configurePlugins :: "string list"
  executeConcurrently :: "string \<Rightarrow> string list \<Rightarrow> env_state \<Rightarrow> exec_result \<times> env_state"
  deployArmTemplates :: "env_state \<Rightarrow> env_state res"
  setApplicationInContext :: "(env_state \<Rightarrow> unit res \<times> env_state) option"
  showMessage :: "nat \<Rightarrow> string option"

text \<open>
  The calls a run makes, in order. A phase is logged with the state it is invoked on and
  the way it ends.
\<close>

datatype event =
    CallEnsurePermissionRequest
  | CallFillInAzureConfigs
  | CallAskForProvisionConsent "ui_event list"
  | CallCreateNewResourceGroup
  | CallHandleConfigFiles
  | CallProvisionResource env_state exec_result
  | CallDeployArmTemplates "env_state res"
  | CallSetApplicationInContext "unit res"
  | CallConfigureResource env_state exec_result

type_synonym run = "unit res \<times> env_state \<times> event list"

text \<open>\<open>if (!envInfo.state[key]) envInfo.state[key] = {}\<close> and \<open>envInfo.state[key][field] = v\<close>.\<close>

definition ensureObject :: "string \<Rightarrow> env_state \<Rightarrow> env_state" where
  "ensureObject key st = (if map_of st key = None then AList.update key [] st else st)"

definition setField :: "string \<Rightarrow> string \<Rightarrow> jval \<Rightarrow> env_state \<Rightarrow> unit res \<times> env_state" where
  "setField key field v st =
     (case map_of st key of
        None \<Rightarrow> (Throw TypeError, st)
      | Some ob \<Rightarrow> (Ok (), AList.update key (AList.update field v ob) st))"

record tenant_check =
  hasSwitchedM365Tenant :: bool
  m365AccountName :: "string option"
  hasBotServiceCreatedBefore :: bool

text \<open>
  Lines 124 to 178 of \<open>provisionResourceImpl\<close>: the project path, the sign-in to
  Microsoft 365 and the tenant check. \<open>solutionConfig\<close> is the object
  \<open>envInfo.state.solution\<close>; the second write of \<open>teamsAppTenantId\<close> goes to the same
  object.
\<close>

definition checkM365Tenant ::
  "solution_constants \<Rightarrow> v1_plugin_names \<Rightarrow> localize \<Rightarrow> m365_world \<Rightarrow> provision_world
     \<Rightarrow> inputs \<Rightarrow> string \<Rightarrow> env_state \<Rightarrow> tenant_check res \<times> env_state" where
  "checkM365Tenant SC V1 L M PW inp envName st =
     (case projectPath inp of
        None \<Rightarrow>
          (Err (SystemError (SolutionSource SC) (InternelError SC) ''projectPath is undefined''), st)
      | Some path \<Rightarrow>
          (case m365_getAccessToken M of
             Err e \<Rightarrow> (Err e, st)
           | Throw x \<Rightarrow> (Throw x, st)
           | Ok token \<Rightarrow>
               (let before = hasBotServiceCreated PW st;
                    st1 = ensureObject (appStudio V1) st;
                    st2 = ensureObject ''solution'' st1;
                    tenantIdInConfig = getField st1 (appStudio V1) ''tenantId''
                in case getM365TenantId L M of
                     Err e \<Rightarrow> (Err e, st2)
                   | Throw x \<Rightarrow> (Throw x, st2)
                   | Ok tenant \<Rightarrow>
                       (let isSwitchingM365Tenant =
                              (truthy tenantIdInConfig \<and> tenantIdInToken tenant \<noteq> []
                               \<and> Some (JStr (tenantIdInToken tenant)) \<noteq> tenantIdInConfig)
                        in if isSwitchingM365Tenant \<and> \<not> doesAllowSwitchAccount PW then
                             (Err (UserError ''Solution'' (TeamsAppTenantIdNotRight SC)
                                     (getLocalizedString L ''error.M365AccountNotMatch'' [envName])),
                              st2)
                           else
                             (let st3 = (if isSwitchingM365Tenant \<and> doesAllowSwitchAccount PW
                                         then resetEnvInfoWhenSwitchM365 PW st2 else st2);
                                  st4 = ensureObject (appStudio V1) st3
                              in case setField (appStudio V1) ''tenantId''
                                        (JStr (tenantIdInToken tenant)) st4 of
                                   (Err e, st5) \<Rightarrow> (Err e, st5)
                                 | (Throw x, st5) \<Rightarrow> (Throw x, st5)
                                 | (Ok u, st5) \<Rightarrow>
                                     (case setField ''solution'' ''teamsAppTenantId''
                                             (JStr (tenantIdInToken tenant)) st5 of
                                        (Err e, st6) \<Rightarrow> (Err e, st6)
                                      | (Throw x, st6) \<Rightarrow> (Throw x, st6)
                                      | (Ok u', st6) \<Rightarrow>
                                          (Ok \<lparr> hasSwitchedM365Tenant =
                                                   (isSwitchingM365Tenant \<and> doesAllowSwitchAccount PW),
                                                 m365AccountName = tenantUserName tenant,
                                                 hasBotServiceCreatedBefore = before \<rparr>,
                                           st6)))))))"

text \<open>
  Lines 220 to 246 and 262 to 273: the resource group is created when needed, and the
  config files are handled after a switch.
\<close>

definition createResourceGroupIfNeeded :: "provision_world \<Rightarrow> env_state \<Rightarrow> event list \<Rightarrow> run" where
  "createResourceGroupIfNeeded PW st tr =
     (if truthy (getField st ''solution'' ''needCreateResourceGroup'') then
        (case rgCreateNewResourceGroup PW
                (js_string (getField st ''solution'' ''resourceGroupName''))
                (js_string (getField st ''solution'' ''subscriptionId''))
                (js_string (getField st ''solution'' ''location'')) of
           Err e \<Rightarrow> (Err e, st, tr @ [CallCreateNewResourceGroup])
         | Throw x \<Rightarrow> (Throw x, st, tr @ [CallCreateNewResourceGroup])
         | Ok u \<Rightarrow> (Ok (), st, tr @ [CallCreateNewResourceGroup]))
      else (Ok (), st, tr))"

definition handleConfigFiles ::
  "provision_world \<Rightarrow> bool \<Rightarrow> bool \<Rightarrow> bool \<Rightarrow> env_state \<Rightarrow> event list \<Rightarrow> run" where
  "handleConfigFiles PW switchedM365Tenant switchedSubscription botCreatedBefore st tr =
     (case handleConfigFilesWhenSwitchAccount PW st switchedM365Tenant switchedSubscription
             botCreatedBefore of
        (r, st') \<Rightarrow> (r, st', tr @ [CallHandleConfigFiles]))"

text \<open>
  Lines 180 to 274: the Azure account, subscription and resource group, and the consent.
  The dialog may never end, so the result is an option.
\<close>

definition azureStage ::
  "solution_constants \<Rightarrow> v1_plugin_names \<Rightarrow> component_names \<Rightarrow> localize \<Rightarrow> azure_world
     \<Rightarrow> provision_world \<Rightarrow> inputs \<Rightarrow> string \<Rightarrow> env_config \<Rightarrow> tenant_check \<Rightarrow> env_state
     \<Rightarrow> run option" where
  "azureStage SC V1 CN L AW PW inp envName cfg tc st =
     (if isAzureProject PW \<and> hasAzureResource PW then
        (let tr1 = (if hasAAD PW then [CallEnsurePermissionRequest] else [])
         in case (if hasAAD PW then ensurePermissionRequest PW else Ok ()) of
              Err e \<Rightarrow> Some (Err e, st, tr1)
            | Throw x \<Rightarrow> Some (Throw x, st, tr1)
            | Ok u \<Rightarrow>
                (case fillInAzureConfigs V1 CN AW inp envName cfg st of
                   (Err e, st1) \<Rightarrow> Some (Err e, st1, tr1 @ [CallFillInAzureConfigs])
                 | (Throw x, st1) \<Rightarrow> Some (Throw x, st1, tr1 @ [CallFillInAzureConfigs])
                 | (Ok solutionConfigRes, st1) \<Rightarrow>
                     (case askForProvisionConsentNew SC V1 CN L (showMessage PW) AW envName st1
                             (hasSwitchedM365Tenant tc)
                             (hasSwitchedSubscription solutionConfigRes)
                             (m365AccountName tc) True of
                        None \<Rightarrow> None
                      | Some (consentResult, log) \<Rightarrow>
                          (let tr2 = tr1 @ [CallFillInAzureConfigs, CallAskForProvisionConsent log]
                           in case consentResult of
                                Err e \<Rightarrow> Some (Err e, st1, tr2)
                              | Throw x \<Rightarrow> Some (Throw x, st1, tr2)
                              | Ok u' \<Rightarrow>
                                  (case createResourceGroupIfNeeded PW st1 tr2 of
                                     (Err e, st2, tr3) \<Rightarrow> Some (Err e, st2, tr3)
                                   | (Throw x, st2, tr3) \<Rightarrow> Some (Throw x, st2, tr3)
                                   | (Ok u'', st2, tr3) \<Rightarrow>
                                       if hasSwitchedSubscription solutionConfigRes
                                          \<or> hasSwitchedM365Tenant tc
                                       then Some (handleConfigFiles PW (hasSwitchedM365Tenant tc)
                                                    (hasSwitchedSubscription solutionConfigRes)
                                                    (hasBotServiceCreatedBefore tc) st2 tr3)
                                       else Some (Ok (), st2, tr3))))))
      else if hasSwitchedM365Tenant tc then
        (case askForProvisionConsentNew SC V1 CN L (showMessage PW) AW envName st
                (hasSwitchedM365Tenant tc) False (m365AccountName tc) False of
           None \<Rightarrow> None
         | Some (Err e, log) \<Rightarrow> Some (Err e, st, [CallAskForProvisionConsent log])
         | Some (Throw x, log) \<Rightarrow> Some (Throw x, st, [CallAskForProvisionConsent log])
         | Some (Ok u, log) \<Rightarrow>
             Some (handleConfigFiles PW (hasSwitchedM365Tenant tc) False False st
                     [CallAskForProvisionConsent log]))
      else Some (Ok (), st, []))"

text \<open>
  Lines 387 to 438: the configure phase has ended. Only the branch of its success
  writes \<open>provisionSucceeded = true\<close>.
\<close>

definition finishProvision ::
  "solution_constants \<Rightarrow> exec_result \<Rightarrow> env_state \<Rightarrow> event list \<Rightarrow> run" where
  "finishProvision SC configureResourceResult st tr =
     (case configureResourceResult of
        Failure e \<Rightarrow> (Err e, st, tr)
      | PartialSuccess e \<Rightarrow> (Err e, st, tr)
      | Success \<Rightarrow>
          (let st1 = (case map_of st ''solution'' of
                        None \<Rightarrow> st
                      | Some solution \<Rightarrow>
                          if truthy (map_of solution (ARM_TEMPLATE_OUTPUT SC))
                          then AList.update ''solution''
                                 (AList.delete (ARM_TEMPLATE_OUTPUT SC) solution) st
                          else st)
           in case setField ''solution'' ''provisionSucceeded'' (JBool True) st1 of
                (Err e, st2) \<Rightarrow> (Err e, st2, tr)
              | (Throw x, st2) \<Rightarrow> (Throw x, st2, tr)
              | (Ok u, st2) \<Rightarrow> (Ok (), st2, tr)))"

text \<open>Lines 360 to 386: the configure phase.\<close>

definition configurePhase ::
  "solution_constants \<Rightarrow> provision_world \<Rightarrow> env_state \<Rightarrow> event list \<Rightarrow> run" where
  "configurePhase SC PW st tr =
     (let st1 = fold ensureObject (configurePlugins PW) st
      in case executeConcurrently PW ''configureResource'' (configurePlugins PW) st1 of
           (configureResourceResult, st2) \<Rightarrow>
             finishProvision SC configureResourceResult st2
               (tr @ [CallConfigureResource st1 configureResourceResult]))"

text \<open>Lines 340 to 358: \<open>aad.setApplicationInContext\<close>.\<close>

definition setAadApplication ::
  "solution_constants \<Rightarrow> provision_world \<Rightarrow> env_state \<Rightarrow> event list \<Rightarrow> run" where
  "setAadApplication SC PW st tr =
     (case setApplicationInContext PW of
        None \<Rightarrow> configurePhase SC PW st tr
      | Some task \<Rightarrow>
          (case task st of
             (Err e, st1) \<Rightarrow> (Err e, st1, tr @ [CallSetApplicationInContext (Err e)])
           | (Throw x, st1) \<Rightarrow> (Throw x, st1, tr @ [CallSetApplicationInContext (Throw x)])
           | (Ok u, st1) \<Rightarrow>
               configurePhase SC PW st1 (tr @ [CallSetApplicationInContext (Ok u)])))"

text \<open>
  Lines 324 to 338: the ARM templates are deployed, and \<open>_.assign(envInfo.state, update)\<close>
  copies every entry of the adaptor's state back.
\<close>

definition deployArm ::
  "solution_constants \<Rightarrow> provision_world \<Rightarrow> inputs \<Rightarrow> env_state \<Rightarrow> event list \<Rightarrow> run" where
  "deployArm SC PW inp st tr =
     (if isAzureProject PW \<and> \<not> isForUT inp \<and> hasAzureResource PW then
        (case deployArmTemplates PW st of
           Err e \<Rightarrow> (Err e, st, tr @ [CallDeployArmTemplates (Err e)])
         | Throw x \<Rightarrow> (Throw x, st, tr @ [CallDeployArmTemplates (Throw x)])
         | Ok update \<Rightarrow>
             setAadApplication SC PW (fold (\<lambda>entry. AList.update (fst entry) (snd entry)) update st)
               (tr @ [CallDeployArmTemplates (Ok update)]))
      else setAadApplication SC PW st tr)"

text \<open>
  Lines 285 to 322: \<open>provisionSucceeded = false\<close> is written, then the provision phase
  runs. Reading the Teams app id throws when the entry of the app studio plugin is gone.
\<close>

definition provisionPhase ::
  "solution_constants \<Rightarrow> provision_world \<Rightarrow> inputs \<Rightarrow> env_state \<Rightarrow> event list \<Rightarrow> run" where
  "provisionPhase SC PW inp st tr =
     (case setField ''solution'' ''provisionSucceeded'' (JBool False) st of
        (Err e, st1) \<Rightarrow> (Err e, st1, tr)
      | (Throw x, st1) \<Rightarrow> (Throw x, st1, tr)
      | (Ok u, st1) \<Rightarrow>
          (case executeConcurrently PW ''provisionResource'' (provisionPlugins PW) st1 of
             (provisionResult, st2) \<Rightarrow>
               (let tr1 = tr @ [CallProvisionResource st1 provisionResult]
                in case provisionResult of
                     Failure e \<Rightarrow> (Err e, st2, tr1)
                   | PartialSuccess e \<Rightarrow> (Err e, st2, tr1)
                   | Success \<Rightarrow>
                       (case map_of st2 (APPST SC) of
                          None \<Rightarrow> (Throw TypeError, st2, tr1)
                        | Some appStudioState \<Rightarrow> deployArm SC PW inp st2 tr1))))"

definition provisionResourceImpl ::
  "solution_constants \<Rightarrow> v1_plugin_names \<Rightarrow> component_names \<Rightarrow> localize \<Rightarrow> m365_world
     \<Rightarrow> azure_world \<Rightarrow> provision_world \<Rightarrow> inputs \<Rightarrow> string \<Rightarrow> env_config \<Rightarrow> env_state
     \<Rightarrow> run option" where
  "provisionResourceImpl SC V1 CN L M AW PW inp envName cfg st =
     (case checkM365Tenant SC V1 L M PW inp envName st of
        (Err e, st1) \<Rightarrow> Some (Err e, st1, [])
      | (Throw x, st1) \<Rightarrow> Some (Throw x, st1, [])
      | (Ok tc, st1) \<Rightarrow>
          (case azureStage SC V1 CN L AW PW inp envName cfg tc st1 of
             None \<Rightarrow> None
           | Some (Err e, st2, tr) \<Rightarrow> Some (Err e, st2, tr)
           | Some (Throw x, st2, tr) \<Rightarrow> Some (Throw x, st2, tr)
           | Some (Ok u, st2, tr) \<Rightarrow> Some (provisionPhase SC PW inp st2 tr)))"

text \<open>\<open>provisionResource\<close> adds telemetry around \<open>provisionResourceImpl\<close> and returns its result.\<close>

definition provisionResource ::
  "solution_constants \<Rightarrow> v1_plugin_names \<Rightarrow> component_names \<Rightarrow> localize \<Rightarrow> m365_world
     \<Rightarrow> azure_world \<Rightarrow> provision_world \<Rightarrow> inputs \<Rightarrow> string \<Rightarrow> env_config \<Rightarrow> env_state
     \<Rightarrow> run option" where
  "provisionResource SC V1 CN L M AW PW inp envName cfg st =
     provisionResourceImpl SC V1 CN L M AW PW inp envName cfg st"

section \<open>component/migrate.ts: project settings\<close>

text \<open>
  \<open>ProjectSettings\<close> and \<open>ProjectSettingsV3\<close> are one object read in two ways: the
  converters clone it and add or rewrite fields. The fields the converters touch are
  record fields; \<open>otherFields\<close> (and \<open>otherProps\<close> of a component) holds the rest. The
  solution settings have the fields of \<open>AzureSolutionSettings\<close>, typed as it declares
  them; \<open>name\<close> and \<open>capabilities\<close> are written \<open>solutionName\<close> and \<open>solutionCapabilities\<close>
  here, since a component has fields of the same names. Of the plugin settings the
  converters read \<open>host-type\<close> and \<open>capabilities\<close>.
\<close>

record component =
  name :: string
  hosting :: "string option"
  build :: "bool option"
  provision :: "bool option"
  folder :: "string option"
  artifactFolder :: "string option"
  sso :: "bool option"
  capabilities :: "string list option"
  connections :: "string list option"
  scenario :: "string option"
  functionNames :: "string list option"
  otherProps :: "(string \<times> jval) list"

record solution_settings =
  solutionName :: string
  version :: "string option"
  hostType :: string
  azureResources :: "string list"
  solutionCapabilities :: "string list"
  activeResourcePlugins :: "string list"
  otherSettings :: "(string \<times> jval) list"

record plugin_settings =
  host_type :: "string option"
  plugin_capabilities :: "string list option"

record project_settings =
  appName :: string
  projectId :: string
  programmingLanguage :: "string option"
  defaultFunctionName :: "string option"
  solutionSettings :: "solution_settings option"
  pluginSettings :: "(string \<times> plugin_settings) list option"
  components :: "component list option"
  otherFields :: "(string \<times> jval) list"

text \<open>
  Helpers of the converters that are not among the source files, as parameters:
  \<open>isVSProject\<close>, \<open>hasAzureResourceV3\<close>, \<open>ensureComponentConnections\<close> (it changes the
  settings in place: here it returns them) and the id of \<open>MessageExtensionNewUIItem\<close>.
\<close>

record migrate_helpers =
  isVSProject :: "project_settings \<Rightarrow> bool"
  hasAzureResourceV3 :: "project_settings \<Rightarrow> bool"
  ensureComponentConnections :: "project_settings \<Rightarrow> project_settings"
  MessageExtensionNewUIItem_id :: string

text \<open>
  Modelled from the spec: \<open>getComponent\<close> of \<open>component/workflow.ts\<close> is not among the
  source files. The spec's data model identifies a component of the \<open>components\<close> graph
  by its \<open>name\<close>: \<open>getComponent(settings, n)\<close> is the first component named \<open>n\<close>, if there
  is one. The converters write to the component it returns; \<open>changeComponent\<close> is that
  write.
\<close>

definition getComponent :: "component list option \<Rightarrow> string \<Rightarrow> component option" where
  "getComponent comps n =
     (case comps of None \<Rightarrow> None | Some cs \<Rightarrow> find (\<lambda>c. name c = n) cs)"

fun changeComponent :: "string \<Rightarrow> (component \<Rightarrow> component) \<Rightarrow> component list \<Rightarrow> component list" where
  "changeComponent n f [] = []"
| "changeComponent n f (c # cs) = (if name c = n then f c # cs else c # changeComponent n f cs)"

definition newComponent :: "string \<Rightarrow> component" where
  "newComponent n =
     \<lparr> name = n, hosting = None, build = None, provision = None, folder = None,
       artifactFolder = None, sso = None, capabilities = None, connections = None,
       scenario = None, functionNames = None, otherProps = [] \<rparr>"

definition publishFolder :: string where
  "publishFolder = ''bin'' @ [CHR 0x5C] @ ''Release'' @ [CHR 0x5C] @ ''net6.0'' @ [CHR 0x5C]
                   @ ''win-x86'' @ [CHR 0x5C] @ ''publish''"

text \<open>
  The hosting component gets a connection to the component it hosts: the one already in
  the list is extended, or a new one is pushed (with the scenario, for a bot).
\<close>

definition connectHosting ::
  "string \<Rightarrow> string \<Rightarrow> string option \<Rightarrow> component list \<Rightarrow> component list" where
  "connectHosting hostingComponent hosted hostingScenario cs =
     (case getComponent (Some cs) hostingComponent of
        Some hostingConfig \<Rightarrow>
          changeComponent hostingComponent
            (\<lambda>c. c\<lparr> connections :=
                      Some ((case connections c of None \<Rightarrow> [] | Some xs \<Rightarrow> xs) @ [hosted]) \<rparr>) cs
      | None \<Rightarrow>
          cs @ [(newComponent hostingComponent)
                  \<lparr> connections := Some [hosted], provision := Some True,
                    scenario := hostingScenario \<rparr>])"

definition addAad :: "component_names \<Rightarrow> solution_settings \<Rightarrow> component list \<Rightarrow> component list" where
  "addAad CN ss cs =
     (if ''fx-resource-aad-app-for-teams'' \<in> set (activeResourcePlugins ss)
      then cs @ [(newComponent (AadApp CN)) \<lparr> provision := Some True \<rparr>]
      else cs)"

definition addTab ::
  "component_names \<Rightarrow> bool \<Rightarrow> solution_settings \<Rightarrow> component list \<Rightarrow> component list" where
  "addTab CN isVS ss cs =
     (if ''fx-resource-frontend-hosting'' \<in> set (activeResourcePlugins ss) then
        (let hostingComponent = (if isVS then AzureWebApp CN else AzureStorage CN);
             teamsTab =
               (if isVS then
                  (newComponent ''teams-tab'')
                    \<lparr> hosting := Some hostingComponent, build := Some True,
                      provision := Some False, folder := Some [],
                      artifactFolder := Some publishFolder,
                      sso := Some (''TabSSO'' \<in> set (solutionCapabilities ss)) \<rparr>
                else
                  (newComponent ''teams-tab'')
                    \<lparr> hosting := Some hostingComponent, build := Some True,
                      provision := Some True, folder := Some ''tabs'',
                      sso := Some (''TabSSO'' \<in> set (solutionCapabilities ss)) \<rparr>)
         in connectHosting hostingComponent ''teams-tab'' None (cs @ [teamsTab]))
      else cs)"

definition addSpfx :: "solution_settings \<Rightarrow> component list \<Rightarrow> component list" where
  "addSpfx ss cs =
     (if ''fx-resource-spfx'' \<in> set (activeResourcePlugins ss) then
        cs @ [ (newComponent ''teams-tab'')
                 \<lparr> hosting := Some ''spfx'', build := Some True, provision := Some True,
                   folder := Some ''SPFx'' \<rparr>,
               (newComponent ''spfx'') \<lparr> provision := Some True \<rparr> ]
      else cs)"

definition addBot ::
  "component_names \<Rightarrow> string \<Rightarrow> bool \<Rightarrow> solution_settings
     \<Rightarrow> (string \<times> plugin_settings) list option \<Rightarrow> component list \<Rightarrow> component list" where
  "addBot CN messageExtensionId isVS ss ps cs =
     (if ''fx-resource-bot'' \<in> set (activeResourcePlugins ss) then
        (let botSettings = (case ps of None \<Rightarrow> None | Some p \<Rightarrow> map_of p ''fx-resource-bot'');
             hostType = (case botSettings of None \<Rightarrow> None | Some b \<Rightarrow> host_type b);
             botCapabilities0 =
               (case botSettings of None \<Rightarrow> None | Some b \<Rightarrow> plugin_capabilities b);
             botCapabilities =
               (if messageExtensionId \<in> set (solutionCapabilities ss)
                   \<and> \<not> (case botCapabilities0 of
                           None \<Rightarrow> False
                         | Some xs \<Rightarrow> ''message-extension'' \<in> set xs)
                then Some ((case botCapabilities0 of None \<Rightarrow> [] | Some xs \<Rightarrow> xs)
                           @ [''message-extension''])
                else botCapabilities0);
             hostingComponent =
               (if hostType = Some ''azure-functions'' then Function CN else AzureWebApp CN);
             teamsBot =
               (if isVS then
                  (newComponent ''teams-bot'')
                    \<lparr> hosting := Some hostingComponent, build := Some True, folder := Some [],
                      artifactFolder := Some publishFolder, capabilities := botCapabilities,
                      sso := Some (''BotSSO'' \<in> set (solutionCapabilities ss)) \<rparr>
                else
                  (newComponent ''teams-bot'')
                    \<lparr> hosting := Some hostingComponent, build := Some True,
                      provision := Some True, folder := Some ''bot'',
                      capabilities := botCapabilities,
                      sso := Some (''BotSSO'' \<in> set (solutionCapabilities ss)) \<rparr>)
         in connectHosting hostingComponent ''teams-bot'' (Some ''Bot'') (cs @ [teamsBot])
              @ [(newComponent (BotService CN)) \<lparr> provision := Some True \<rparr>])
      else cs)"

definition addResources ::
  "component_names \<Rightarrow> solution_settings \<Rightarrow> string option \<Rightarrow> component list \<Rightarrow> component list" where
  "addResources CN ss functionName cs =
     (let cs1 = (if ''fx-resource-identity'' \<in> set (activeResourcePlugins ss)
                 then cs @ [newComponent (Identity CN)] else cs);
          cs2 = (if ''fx-resource-key-vault'' \<in> set (activeResourcePlugins ss)
                 then cs1 @ [newComponent (KeyVault CN)] else cs1);
          cs3 = (if ''fx-resource-azure-sql'' \<in> set (activeResourcePlugins ss)
                 then cs2 @ [(newComponent (AzureSQL CN)) \<lparr> provision := Some True \<rparr>] else cs2);
          cs4 = (if ''fx-resource-apim'' \<in> set (activeResourcePlugins ss)
                 then cs3 @ [(newComponent (APIM CN)) \<lparr> provision := Some True \<rparr>] else cs3)
      in if ''fx-resource-function'' \<in> set (activeResourcePlugins ss) then
           cs4 @ [ (newComponent (TeamsApi CN))
                     \<lparr> hosting := Some (Function CN),
                       functionNames :=
                         Some [if truthyS functionName then the functionName
                               else ''getUserProfile''],
                       build := Some True, folder := Some ''api'' \<rparr>,
                   (newComponent (Function CN)) \<lparr> scenario := Some ''Api'' \<rparr> ]
         else cs4)"

definition upgradeComponents ::
  "component_names \<Rightarrow> string \<Rightarrow> bool \<Rightarrow> solution_settings
     \<Rightarrow> (string \<times> plugin_settings) list option \<Rightarrow> string option \<Rightarrow> component list" where
  "upgradeComponents CN messageExtensionId isVS ss ps functionName =
     addResources CN ss functionName
       (addBot CN messageExtensionId isVS ss ps
          (addSpfx ss (addTab CN isVS ss (addAad CN ss []))))"

text \<open>
  \<open>convertProjectSettingsV2ToV3\<close>. The push of \<open>message-extension\<close> goes to the array of
  the argument's plugin settings when there is one; the returned settings hold the clone
  made before, and the bot component holds the extended array.
\<close>

definition convertProjectSettingsV2ToV3 ::
  "component_names \<Rightarrow> migrate_helpers \<Rightarrow> project_settings \<Rightarrow> project_settings" where
  "convertProjectSettingsV2ToV3 CN H settingsV2 =
     (case solutionSettings settingsV2 of
        None \<Rightarrow> settingsV2
      | Some ss \<Rightarrow>
          if components settingsV2 = None \<or> components settingsV2 = Some [] then
            ensureComponentConnections H
              (settingsV2
                 \<lparr> components :=
                     Some (upgradeComponents CN (MessageExtensionNewUIItem_id H)
                             (isVSProject H settingsV2) ss (pluginSettings settingsV2)
                             (defaultFunctionName settingsV2)) \<rparr>)
          else settingsV2)"

definition present :: "component list option \<Rightarrow> string \<Rightarrow> bool" where
  "present comps n = (getComponent comps n \<noteq> None)"

definition arrayIncludes :: "string list option \<Rightarrow> string \<Rightarrow> bool" where
  "arrayIncludes xs x = (case xs of None \<Rightarrow> False | Some ys \<Rightarrow> x \<in> set ys)"

text \<open>The solution settings \<open>convertProjectSettingsV3ToV2\<close> builds.\<close>

definition downgradeSolutionSettings ::
  "component_names \<Rightarrow> migrate_helpers \<Rightarrow> project_settings \<Rightarrow> solution_settings" where
  "downgradeSolutionSettings CN H settingsV3 =
     (let comps = components settingsV3;
          hostTypeName = (if hasAzureResourceV3 H settingsV3 then ''Azure'' else ''SPFx'');
          teamsTab = getComponent comps (TeamsTab CN);
          teamsBot = getComponent comps (TeamsBot CN);
          botCapabilities = (case teamsBot of None \<Rightarrow> None | Some b \<Rightarrow> capabilities b);
          tabCapabilities =
            (case teamsTab of
               None \<Rightarrow> []
             | Some t \<Rightarrow> ''Tab'' # (if sso t = Some True then [''TabSSO''] else []));
          botCapabilityNames =
            (case teamsBot of
               None \<Rightarrow> []
             | Some b \<Rightarrow>
                 (if arrayIncludes botCapabilities ''bot'' \<or> arrayIncludes botCapabilities ''notification''
                     \<or> arrayIncludes botCapabilities ''command-response''
                  then ''Bot'' # (if sso b = Some True then [''BotSSO''] else [])
                  else []));
          capabilities1 = tabCapabilities @ botCapabilityNames;
          capabilities2 =
            (if teamsBot \<noteq> None \<and> arrayIncludes botCapabilities ''message-extension''
                \<and> MessageExtensionNewUIItem_id H \<notin> set capabilities1
             then capabilities1 @ [MessageExtensionNewUIItem_id H] else capabilities1);
          plugins =
            [''fx-resource-local-debug'', ''fx-resource-appstudio'', ''fx-resource-cicd'']
            @ (if hostTypeName = ''Azure'' then [''fx-resource-api-connector''] else [])
            @ (if present comps (AadApp CN) then [''fx-resource-aad-app-for-teams''] else [])
            @ (case teamsTab of
                 None \<Rightarrow> []
               | Some t \<Rightarrow>
                   if hosting t = Some ''spfx'' then [''fx-resource-spfx'']
                   else [''fx-resource-frontend-hosting''])
            @ (if teamsBot \<noteq> None then [''fx-resource-bot''] else [])
            @ (if present comps (Identity CN) then [''fx-resource-identity''] else [])
            @ (if present comps (KeyVault CN) then [''fx-resource-key-vault''] else [])
            @ (if present comps (AzureSQL CN) then [''fx-resource-azure-sql''] else [])
            @ (if present comps (APIM CN) then [''fx-resource-apim''] else [])
            @ (if present comps (TeamsApi CN) then [''fx-resource-function''] else []);
          resources =
            (if present comps (KeyVault CN) then [''keyvault''] else [])
            @ (if present comps (AzureSQL CN) then [''sql''] else [])
            @ (if present comps (APIM CN) then [''apim''] else [])
            @ (if present comps (TeamsApi CN) then [''function''] else [])
      in \<lparr> solutionName = ''fx-solution-azure'', version = Some ''1.0.0'',
           hostType = hostTypeName, azureResources = resources,
           solutionCapabilities = capabilities2, activeResourcePlugins = plugins,
           otherSettings = [] \<rparr>)"

definition convertProjectSettingsV3ToV2 ::
  "component_names \<Rightarrow> migrate_helpers \<Rightarrow> project_settings \<Rightarrow> project_settings" where
  "convertProjectSettingsV3ToV2 CN H settingsV3 =
     (case components settingsV3 of
        None \<Rightarrow> settingsV3
      | Some [] \<Rightarrow> settingsV3
      | Some (c # cs) \<Rightarrow>
          (let comps = components settingsV3;
               settings1 = settingsV3 \<lparr> solutionSettings := Some (downgradeSolutionSettings CN H settingsV3) \<rparr>;
               settings2 =
                 (case getComponent comps (TeamsBot CN) of
                    None \<Rightarrow> settings1
                  | Some teamsBot \<Rightarrow>
                      settings1
                        \<lparr> pluginSettings :=
                            Some [(''fx-resource-bot'',
                                   \<lparr> host_type =
                                       Some (if hosting teamsBot = Some (AzureWebApp CN)
                                             then ''app-service'' else ''azure-function''),
                                     plugin_capabilities = capabilities teamsBot \<rparr>)] \<rparr>)
           in case getComponent comps (TeamsApi CN) of
                None \<Rightarrow> settings2
              | Some teamsApi \<Rightarrow>
                  settings2
                    \<lparr> defaultFunctionName :=
                        Some (case functionNames teamsApi of
                                Some (f # fs) \<Rightarrow> f
                              | _ \<Rightarrow> ''getUserProfile'') \<rparr>))"

section \<open>core/middleware/envInfoLoader.ts: useUserSetEnv\<close>

text \<open>
  The environment manager (\<open>core/environment\<close>) and \<open>ProjectEnvNotExistError\<close>
  (\<open>core/error\<close>) are not among the source files. The manager works on the project's
  files, a state \<open>'fs\<close>: \<open>checkEnvExist\<close> reads it, \<open>createLocalEnv\<close> changes it (its result
  is not looked at).
\<close>

record 'fs environment_manager =
  checkEnvExist :: "'fs \<Rightarrow> string \<Rightarrow> string \<Rightarrow> bool res"
  createLocalEnv :: "'fs \<Rightarrow> string \<Rightarrow> unit res \<times> 'fs"
  getLocalEnvName :: string
  ProjectEnvNotExistError :: "string \<Rightarrow> fx_error"

definition useUserSetEnv ::
  "'fs environment_manager \<Rightarrow> 'fs \<Rightarrow> string \<Rightarrow> string \<Rightarrow> string res \<times> 'fs" where
  "useUserSetEnv EM fs path env =
     (case checkEnvExist EM fs path env of
        Err e \<Rightarrow> (Err e, fs)
      | Throw x \<Rightarrow> (Throw x, fs)
      | Ok envExists \<Rightarrow>
          if \<not> envExists then
            (if env = getLocalEnvName EM then
               (case createLocalEnv EM fs path of
                  (Throw x, fs1) \<Rightarrow> (Throw x, fs1)
                | (created, fs1) \<Rightarrow>
                    (case checkEnvExist EM fs1 path env of
                       Err e \<Rightarrow> (Err e, fs1)
                     | Throw x \<Rightarrow> (Throw x, fs1)
                     | Ok envExists1 \<Rightarrow>
                         if \<not> envExists1 then (Err (ProjectEnvNotExistError EM env), fs1)
                         else (Ok env, fs1)))
             else (Err (ProjectEnvNotExistError EM env), fs))
          else (Ok env, fs))"

section \<open>Example inputs\<close>

text \<open>
  An environment provisioned before under subscription \<open>sub-1\<close>, and a second
  subscription of the account.
\<close>

definition example_state :: env_state where
  "example_state =
     [ (''solution'',
          [ (''subscriptionId'', JStr ''sub-1''), (''teamsAppTenantId'', JStr ''m365-tenant''),
            (''resourceGroupName'', JStr ''app-dev-rg''), (''location'', JStr ''eastus''),
            (''resourceNameSuffix'', JStr ''abc123'') ]),
       (''fx-resource-appstudio'', [ (''tenantId'', JStr ''m365-tenant'') ]),
       (''fx-resource-bot'', [ (''botId'', JStr ''bot-1'') ]),
       (''fx-resource-apim'',
          [ (''serviceResourceId'', JStr ''apim-1''), (''productResourceId'', JStr ''product-1'') ]) ]"

definition other_subscription :: SubscriptionInfo where
  "other_subscription =
     \<lparr> subscriptionId = ''sub-2'', subscriptionName = ''Second'', tenantId = ''azure-tenant'' \<rparr>"

text \<open>
  An account whose selected subscription is the given one: no resource group is found by
  name, stored groups exist, and the prompt answers with a new group of the default name.
\<close>

definition example_world :: "SubscriptionInfo \<Rightarrow> azure_world" where
  "example_world selected =
     \<lparr> getSelectedSubscription = Some selected,
       listSubscriptions = [selected],
       getAccountCredentialAsync = Some \<lparr> username = Some ''user@example.com'' \<rparr>,
       getResourceGroupInfo = (\<lambda>rmClient name. Ok None),
       checkResourceGroupExistence = (\<lambda>rmClient name. Ok True),
       askResourceGroupInfo =
         (\<lambda>rmClient defaultName.
            Ok \<lparr> createNewResourceGroup = True, rg_name = defaultName, rg_location = ''westus'' \<rparr>),
       uuidv4 = ''0f8fad5b-d9cb-469f-a165-70867728950e'',
       snakeCaseAppName = ''app'',
       envConfigFileName =
         (\<lambda>name. ''config.'' @ (case name of None \<Rightarrow> ''undefined'' | Some n \<Rightarrow> n) @ ''.json'') \<rparr>"

definition first_subscription :: SubscriptionInfo where
  "first_subscription =
     \<lparr> subscriptionId = ''sub-1'', subscriptionName = ''First'', tenantId = ''azure-tenant'' \<rparr>"

definition example_inputs :: inputs where
  "example_inputs =
     \<lparr> projectPath = Some ''./'', inputs_env = Some ''dev'', inputs_envName = Some ''dev'',
       platform = VSCode, targetResourceGroupName = None, targetResourceLocationName = None,
       isForUT = False \<rparr>"

definition no_config :: env_config where
  "no_config = \<lparr> azure = None \<rparr>"

text \<open>A state that names a resource group and no location.\<close>

definition example_state_no_location :: env_state where
  "example_state_no_location =
     [ (''solution'',
          [ (''subscriptionId'', JStr ''sub-1''), (''resourceGroupName'', JStr ''stored-rg'') ]) ]"

text \<open>What \<open>fillInAzureConfigs\<close> reads as the suffix of the config file.\<close>

definition configResourceNameSuffix :: "env_config \<Rightarrow> string option" where
  "configResourceNameSuffix cfg =
     (case azure cfg of None \<Rightarrow> None | Some a \<Rightarrow> azure_resourceNameSuffix a)"

text \<open>
  The run ended with \<open>ok\<close> and the state names the resource group \<open>info\<close>; the run ended
  with the user error \<open>ResourceGroupNotFound\<close>.
\<close>

definition resourceGroupWritten ::
  "ProvisionSubscriptionCheckResult res \<times> env_state \<Rightarrow> ResourceGroupInfo \<Rightarrow> bool" where
  "resourceGroupWritten result info =
     ((case fst result of Ok r \<Rightarrow> True | Err e \<Rightarrow> False | Throw x \<Rightarrow> False)
      \<and> getField (snd result) ''solution'' ''resourceGroupName'' = Some (JStr (rg_name info))
      \<and> getField (snd result) ''solution'' ''location'' = Some (JStr (rg_location info))
      \<and> getField (snd result) ''solution'' ''needCreateResourceGroup''
            = Some (JBool (createNewResourceGroup info)))"

definition resourceGroupNotFound :: "ProvisionSubscriptionCheckResult res \<times> env_state \<Rightarrow> bool" where
  "resourceGroupNotFound result =
     (case fst result of
        Err e \<Rightarrow> is_user_error e \<and> error_name e = ''ResourceGroupNotFound''
      | Ok r \<Rightarrow> False
      | Throw x \<Rightarrow> False)"

text \<open>The number of documentation pages opened and of dialogs shown in a log.\<close>

fun opened :: "ui_event list \<Rightarrow> nat" where
  "opened [] = 0"
| "opened (OpenUrl url # es) = Suc (opened es)"
| "opened (ShowMessage message items # es) = opened es"

fun prompts :: "ui_event list \<Rightarrow> nat" where
  "prompts [] = 0"
| "prompts (OpenUrl url # es) = prompts es"
| "prompts (ShowMessage message items # es) = Suc (prompts es)"

text \<open>
  The log of a dialog answered "learn more" \<open>n\<close> times: each time the message is shown and
  the documentation opened.
\<close>

definition learnMoreRounds :: "nat \<Rightarrow> string \<Rightarrow> string list \<Rightarrow> ui_event list" where
  "learnMoreRounds n message items =
     concat (replicate n [ShowMessage message items, OpenUrl provisionDocUrl])"

text \<open>Strings of the user interface for the examples, and a user who reads the
  documentation once and then provisions.\<close>

definition example_localize :: localize where
  "example_localize =
     \<lparr> getDefaultString = (\<lambda>key. key),
       getLocalizedString =
         (\<lambda>key args.
            if key = ''core.provision.provision'' then ''Provision''
            else if key = ''core.provision.learnMore'' then ''Learn more''
            else key @ concat args) \<rparr>"

definition example_constants :: solution_constants where
  "example_constants =
     \<lparr> SolutionSource = ''Solution'', InternelError = ''InternelError'',
       TeamsAppTenantIdNotRight = ''TeamsAppTenantIdNotRight'',
       APPST = ''fx-resource-appstudio'', TEAMS_APP_ID = ''teamsAppId'',
       ARM_TEMPLATE_OUTPUT = ''armTemplateOutput'' \<rparr>"

definition learn_more_then_provision :: "nat \<Rightarrow> string option" where
  "learn_more_then_provision i = (if i = 0 then Some ''Learn more'' else Some ''Provision'')"

text \<open>
  A Microsoft 365 sign-in under the tenant \<open>other-tenant\<close>, and collaborators of a run:
  whether accounts may be switched, and how the provision and the configure phase end.
  The user provisions at once.
\<close>

definition example_m365 :: m365_world where
  "example_m365 =
     \<lparr> m365_getAccessToken = Ok ''token'',
       m365_getJsonObject =
         Ok (Some \<lparr> tid = Some (JStr ''other-tenant''), upn = Some ''user@example.com'' \<rparr>) \<rparr>"


definition example_provision_world :: "bool \<Rightarrow> exec_result \<Rightarrow> exec_result \<Rightarrow> provision_world" where
  "example_provision_world allowSwitch provisionResult configureResult =
     \<lparr> doesAllowSwitchAccount = allowSwitch,
       isAzureProject = True,
       hasAzureResource = True,
       hasAAD = False,
       ensurePermissionRequest = Ok (),
       hasBotServiceCreated = (\<lambda>st. False),
       resetEnvInfoWhenSwitchM365 = (\<lambda>st. st),
       rgCreateNewResourceGroup = (\<lambda>name subscription location. Ok ()),
       handleConfigFilesWhenSwitchAccount = (\<lambda>st m365 subscription botBefore. (Ok (), st)),
       provisionPlugins = [''fx-resource-appstudio'', ''fx-resource-bot''],
       configurePlugins = [''fx-resource-bot''],
       executeConcurrently =
         (\<lambda>task names st.
            (if task = ''provisionResource'' then provisionResult else configureResult, st)),
       deployArmTemplates =
         (\<lambda>st. Ok [(''fx-resource-bot'', [(''siteEndpoint'', JStr ''https://bot.example'')])]),
       setApplicationInContext = None,
       showMessage = (\<lambda>n. Some ''Provision'') \<rparr>"




text \<open>
  Project settings of an Azure tab project with single sign-on plugins, as the provision
  tests set them up, and helpers for them: a project is a Visual Studio project when its
  language is \<open>csharp\<close>, it has Azure resources when a component is one, and
  \<open>ensureComponentConnections\<close> finds nothing to change.
\<close>

definition example_helpers :: migrate_helpers where
  "example_helpers =
     \<lparr> isVSProject = (\<lambda>s. programmingLanguage s = Some ''csharp''),
       hasAzureResourceV3 =
         (\<lambda>s. list_ex
                (\<lambda>c. name c \<in> set [''apim'', ''azure-web-app'', ''azure-function'', ''identity'',
                                     ''key-vault'', ''azure-sql'', ''azure-storage''])
                (case components s of None \<Rightarrow> [] | Some cs \<Rightarrow> cs)),
       ensureComponentConnections = (\<lambda>s. s),
       MessageExtensionNewUIItem_id = ''MessageExtension'' \<rparr>"

definition example_settings :: project_settings where
  "example_settings =
     \<lparr> appName = ''my app'', projectId = ''00000000-0000-0000-0000-000000000000'',
       programmingLanguage = Some ''javascript'', defaultFunctionName = None,
       solutionSettings =
         Some \<lparr> solutionName = ''azure'', version = Some ''1.0'', hostType = ''Azure'',
                azureResources = [], solutionCapabilities = [''Tab''],
                activeResourcePlugins =
                  [''fx-resource-frontend-hosting'', ''fx-resource-aad-app-for-teams''],
                otherSettings = [] \<rparr>,
       pluginSettings = None, components = None, otherFields = [] \<rparr>"

definition example_components :: "component list" where
  "example_components =
     [ (newComponent ''aad-app'') \<lparr> provision := Some True \<rparr>,
       (newComponent ''teams-tab'')
         \<lparr> hosting := Some ''azure-storage'', build := Some True, provision := Some True,
           folder := Some ''tabs'', sso := Some False \<rparr>,
       (newComponent ''azure-storage'')
         \<lparr> connections := Some [''teams-tab''], provision := Some True \<rparr> ]"

text \<open>A file system that is the list of its environments, and its manager.\<close>

definition example_manager :: "string list environment_manager" where
  "example_manager =
     \<lparr> checkEnvExist = (\<lambda>fs path env. Ok (env \<in> set fs)),
       createLocalEnv = (\<lambda>fs path. (Ok (), ''local'' # fs)),
       getLocalEnvName = ''local'',
       ProjectEnvNotExistError =
         (\<lambda>env. UserError ''Core'' ''ProjectEnvNotExistError'' (''no environment '' @ env)) \<rparr>"


section \<open>Specification functions\<close>

text \<open>
  What the purge of \<open>clearEnvInfoStateResource\<close> is expected to leave of the entry under a
  key: nothing for a key of \<open>keysToClear\<close>, the entry without \<open>serviceResourceId\<close> for a
  key of \<open>keysToModify\<close>, the entry itself otherwise.
\<close>

definition purged :: "v1_plugin_names \<Rightarrow> component_names \<Rightarrow> string \<Rightarrow> obj option \<Rightarrow> obj option" where
  "purged V1 CN key entry =
     (if key \<in> set (keysToClear V1 CN) then None
      else if key \<in> set (keysToModify V1 CN)
      then map_option (AList.delete ''serviceResourceId'') entry
      else entry)"




text \<open>
  What is assumed of \<open>ensureComponentConnections\<close>: of the settings it is given it
  rewrites the \<open>connections\<close> of components, and nothing else.
\<close>

definition connectionsOnly :: "(project_settings \<Rightarrow> project_settings) \<Rightarrow> bool" where
  "connectionsOnly ensure =
     (\<forall>s. \<exists>f. ensure s
               = s \<lparr> components :=
                       map_option (map (\<lambda>c. c \<lparr> connections := f c \<rparr>)) (components s) \<rparr>)"

text \<open>
  The plugins \<open>convertProjectSettingsV2ToV3\<close> knows: it adds a component for each of them
  that is active.
\<close>

definition upgradedPlugins :: "string list" where
  "upgradedPlugins =
     [''fx-resource-aad-app-for-teams'', ''fx-resource-frontend-hosting'', ''fx-resource-spfx'',
      ''fx-resource-bot'', ''fx-resource-identity'', ''fx-resource-key-vault'',
      ''fx-resource-azure-sql'', ''fx-resource-apim'', ''fx-resource-function'']"


section \<open>Environment state migration drops unknown entries\<close>

lemma map_of_fold_update_fst:
  "map_of (fold (\<lambda>e m. AList.update (fst e) (snd e) m) xs acc) k = Some c
     \<Longrightarrow> (k, c) \<in> set xs \<or> map_of acc k = Some c"
  by (induction xs arbitrary: acc) (force simp: update_conv' split: if_splits)+

lemma map_of_fold_update_snd:
  "map_of (fold (\<lambda>e m. AList.update (snd e) (fst e) m) xs acc) k = Some c
     \<Longrightarrow> (c, k) \<in> set xs \<or> map_of acc k = Some c"
  by (induction xs arbitrary: acc) (force simp: update_conv' split: if_splits)+

lemma plugin2component_table:
  "map_of (plugin2component CN) p = Some c \<Longrightarrow> (p, c) \<in> set (EnvStateMigrationComponentNames CN)"
  unfolding plugin2component_def by (drule map_of_fold_update_fst) simp

lemma component2plugin_table:
  "map_of (component2plugin CN) c = Some p \<Longrightarrow> (p, c) \<in> set (EnvStateMigrationComponentNames CN)"
  unfolding component2plugin_def by (drule map_of_fold_update_snd) simp

lemma plugin2component_unknown:
  "k \<notin> fst ` set (EnvStateMigrationComponentNames CN) \<Longrightarrow> map_of (plugin2component CN) k = None"
  by (cases "map_of (plugin2component CN) k") (auto dest!: plugin2component_table simp: image_iff)

lemma component2plugin_unknown:
  "k \<notin> snd ` set (EnvStateMigrationComponentNames CN) \<Longrightarrow> map_of (component2plugin CN) k = None"
  by (cases "map_of (component2plugin CN) k") (auto dest!: component2plugin_table simp: image_iff)

lemma migrate_fold_origin:
  assumes "map_of (fold (migrate_step table source) ks acc) n = Some v"
  shows "(\<exists>key. map_of table key = Some n \<and> map_of source key = Some v)
           \<or> map_of acc n = Some v"
  using assms
proof (induction ks arbitrary: acc)
  case Nil
  then show ?case by simp
next
  case (Cons k ks)
  from Cons.IH [OF Cons.prems [simplified]]
  show ?case
    by (auto simp: migrate_step_def update_conv' split: option.splits if_splits)
qed

lemma migrate_fold_cong:
  "(\<And>k. k \<in> set ks \<Longrightarrow> map_of source' k = map_of source k)
     \<Longrightarrow> fold (migrate_step table source') ks acc = fold (migrate_step table source) ks acc"
  by (induction ks arbitrary: acc) (simp_all add: migrate_step_def split: option.splits)

lemma migrate_fold_removeAll:
  "map_of table k = None
     \<Longrightarrow> fold (migrate_step table source) (removeAll k ks) acc
           = fold (migrate_step table source) ks acc"
  by (induction ks arbitrary: acc) (auto simp: migrate_step_def)

lemma migrate_fold_delete:
  assumes "map_of table k = None"
  shows "fold (migrate_step table (AList.delete k source)) (map fst (AList.delete k source)) []
           = fold (migrate_step table source) (map fst source) []"
proof -
  have "fold (migrate_step table (AList.delete k source)) (removeAll k (map fst source)) []
          = fold (migrate_step table source) (removeAll k (map fst source)) []"
    by (rule migrate_fold_cong) (simp add: delete_conv')
  then show ?thesis
    using assms by (simp add: delete_keys migrate_fold_removeAll)
qed


text \<open>
  Claim C10. \<open>convertEnvStateV2ToV3\<close> and \<open>convertEnvStateV3ToV2\<close> copy only entries whose
  key is in the ten-pair table \<open>EnvStateMigrationComponentNames\<close>: every entry of the
  output is the value of a recognised key of the input, stored under the name the table
  pairs it with, and an entry under a key the table does not know is dropped (the
  conversion yields what it yields without that entry).
\<close>

theorem convertEnvState_drops_unknown:
  fixes st :: "(string \<times> 'v) list"
  shows
    "length (EnvStateMigrationComponentNames CN) = 10
     \<and> (\<forall>c v. map_of (convertEnvStateV2ToV3 CN st) c = Some v \<longrightarrow>
            (\<exists>p. (p, c) \<in> set (EnvStateMigrationComponentNames CN) \<and> map_of st p = Some v))
     \<and> (\<forall>p v. map_of (convertEnvStateV3ToV2 CN st) p = Some v \<longrightarrow>
            (\<exists>c. (p, c) \<in> set (EnvStateMigrationComponentNames CN) \<and> map_of st c = Some v))
     \<and> (\<forall>k. k \<notin> fst ` set (EnvStateMigrationComponentNames CN) \<longrightarrow>
            convertEnvStateV2ToV3 CN (AList.delete k st) = convertEnvStateV2ToV3 CN st)
     \<and> (\<forall>k. k \<notin> snd ` set (EnvStateMigrationComponentNames CN) \<longrightarrow>
            convertEnvStateV3ToV2 CN (AList.delete k st) = convertEnvStateV3ToV2 CN st)"
proof (intro conjI allI impI)
  show "length (EnvStateMigrationComponentNames CN) = 10"
    by (simp add: EnvStateMigrationComponentNames_def)
next
  fix c v
  assume "map_of (convertEnvStateV2ToV3 CN st) c = Some v"
  then obtain p where "map_of (plugin2component CN) p = Some c" and "map_of st p = Some v"
    unfolding convertEnvStateV2ToV3_def by (auto dest: migrate_fold_origin)
  then show "\<exists>p. (p, c) \<in> set (EnvStateMigrationComponentNames CN) \<and> map_of st p = Some v"
    by (auto dest: plugin2component_table)
next
  fix p v
  assume "map_of (convertEnvStateV3ToV2 CN st) p = Some v"
  then obtain c where "map_of (component2plugin CN) c = Some p" and "map_of st c = Some v"
    unfolding convertEnvStateV3ToV2_def by (auto dest: migrate_fold_origin)
  then show "\<exists>c. (p, c) \<in> set (EnvStateMigrationComponentNames CN) \<and> map_of st c = Some v"
    by (auto dest: component2plugin_table)
next
  fix k
  assume "k \<notin> fst ` set (EnvStateMigrationComponentNames CN)"
  then show "convertEnvStateV2ToV3 CN (AList.delete k st) = convertEnvStateV2ToV3 CN st"
    unfolding convertEnvStateV2ToV3_def
    by (intro migrate_fold_delete plugin2component_unknown)
next
  fix k
  assume "k \<notin> snd ` set (EnvStateMigrationComponentNames CN)"
  then show "convertEnvStateV3ToV2 CN (AList.delete k st) = convertEnvStateV3ToV2 CN st"
    unfolding convertEnvStateV3ToV2_def
    by (intro migrate_fold_delete component2plugin_unknown)
qed

text \<open>
  A V2 state with the solution entry, a bot entry and an entry of an unknown plugin:
  the unknown entry is lost on the way to V3.
\<close>

theorem convertEnvState_drops_unknown_witness:
  "''fx-resource-custom'' \<notin> fst ` set (EnvStateMigrationComponentNames teamsfx_components)
   \<and> convertEnvStateV2ToV3 teamsfx_components
        (AList.delete ''fx-resource-custom''
          [(''solution'', 1::nat), (''fx-resource-custom'', 2), (''fx-resource-bot'', 3)])
       = convertEnvStateV2ToV3 teamsfx_components
          [(''solution'', 1), (''fx-resource-custom'', 2), (''fx-resource-bot'', 3)]
   \<and> convertEnvStateV2ToV3 teamsfx_components
        [(''solution'', 1::nat), (''fx-resource-custom'', 2), (''fx-resource-bot'', 3)]
       = [(''solution'', 1), (''teams-bot'', 3)]"
proof -
  have unknown:
    "''fx-resource-custom'' \<notin> fst ` set (EnvStateMigrationComponentNames teamsfx_components)"
    by (simp add: EnvStateMigrationComponentNames_def)
  have dropped:
    "convertEnvStateV2ToV3 teamsfx_components
        (AList.delete ''fx-resource-custom''
          [(''solution'', 1::nat), (''fx-resource-custom'', 2), (''fx-resource-bot'', 3)])
       = convertEnvStateV2ToV3 teamsfx_components
          [(''solution'', 1), (''fx-resource-custom'', 2), (''fx-resource-bot'', 3)]"
    using convertEnvState_drops_unknown
      [of teamsfx_components
          "[(''solution'', 1::nat), (''fx-resource-custom'', 2), (''fx-resource-bot'', 3)]"]
      unknown
    by blast
  have result:
    "convertEnvStateV2ToV3 teamsfx_components
        [(''solution'', 1::nat), (''fx-resource-custom'', 2), (''fx-resource-bot'', 3)]
       = [(''solution'', 1), (''teams-bot'', 3)]"
    by (simp add: convertEnvStateV2ToV3_def migrate_step_def plugin2component_def
        EnvStateMigrationComponentNames_def teamsfx_components_def)
  from unknown dropped result show ?thesis by blast
qed

section \<open>Subscription switch: what the purge removes\<close>

lemma clear_step_effect:
  assumes "set (keysToClear V1 CN) \<inter> set (keysToModify V1 CN) = {}"
      and "key \<in> set (keysToModify V1 CN) \<longrightarrow> map_of st key \<noteq> None"
  shows "\<exists>st'. clear_step V1 CN key st = (Ok (), st')
           \<and> map_of st' = (map_of st)(key := purged V1 CN key (map_of st key))"
proof (cases "key \<in> set (keysToModify V1 CN)")
  case True
  with assms obtain ob where ob: "map_of st key = Some ob" and nc: "key \<notin> set (keysToClear V1 CN)"
    by auto
  show ?thesis
    using True ob nc by (simp add: clear_step_def purged_def update_conv')
next
  case False
  show ?thesis
  proof (cases "key \<in> set (keysToClear V1 CN)")
    case True
    then show ?thesis using False by (simp add: clear_step_def purged_def delete_conv')
  next
    case nc: False
    have "(map_of st)(key := map_of st key) = map_of st" by (rule fun_upd_triv)
    then show ?thesis using False nc by (simp add: clear_step_def purged_def)
  qed
qed

lemma purged_idem: "purged V1 CN k (purged V1 CN k v) = purged V1 CN k v"
  by (cases v) (simp_all add: purged_def delete_idem)

lemma purged_None: "purged V1 CN k None = None"
  by (simp add: purged_def)

lemma clear_loop_effect:
  assumes disj: "set (keysToClear V1 CN) \<inter> set (keysToModify V1 CN) = {}"
      and dom: "\<forall>k \<in> set ks. k \<in> set (keysToModify V1 CN) \<longrightarrow> map_of st k \<noteq> None"
  shows "\<exists>st'. clear_loop V1 CN ks st = (Ok (), st')
           \<and> (\<forall>k. map_of st' k = (if k \<in> set ks then purged V1 CN k (map_of st k) else map_of st k))"
  using dom
proof (induction ks arbitrary: st)
  case Nil
  then show ?case by simp
next
  case (Cons key ks)
  from Cons.prems have "key \<in> set (keysToModify V1 CN) \<longrightarrow> map_of st key \<noteq> None" by simp
  from clear_step_effect [OF disj this]
  obtain st1 where step: "clear_step V1 CN key st = (Ok (), st1)"
    and m1: "map_of st1 = (map_of st)(key := purged V1 CN key (map_of st key))"
    by blast
  have "\<forall>k \<in> set ks. k \<in> set (keysToModify V1 CN) \<longrightarrow> map_of st1 k \<noteq> None"
  proof (intro ballI impI)
    fix k assume k: "k \<in> set ks" "k \<in> set (keysToModify V1 CN)"
    with Cons.prems have "map_of st k \<noteq> None" by simp
    moreover from k disj have "k \<notin> set (keysToClear V1 CN)" by auto
    ultimately show "map_of st1 k \<noteq> None"
      using k by (auto simp: m1 purged_def)
  qed
  from Cons.IH [OF this]
  obtain st' where loop: "clear_loop V1 CN ks st1 = (Ok (), st')"
    and m': "\<forall>k. map_of st' k = (if k \<in> set ks then purged V1 CN k (map_of st1 k) else map_of st1 k)"
    by blast
  have "clear_loop V1 CN (key # ks) st = (Ok (), st')"
    using step loop by simp
  moreover have "\<forall>k. map_of st' k
      = (if k \<in> set (key # ks) then purged V1 CN k (map_of st k) else map_of st k)"
    using m' by (auto simp: m1 purged_idem)
  ultimately show ?case by blast
qed


lemma clear_step_frame:
  "k \<notin> set (keysToClear V1 CN) \<Longrightarrow> k \<notin> set (keysToModify V1 CN)
     \<Longrightarrow> map_of (snd (clear_step V1 CN key st)) k = map_of st k"
  by (auto simp: clear_step_def Let_def update_conv' delete_conv' split: option.splits)

lemma clear_loop_frame:
  "k \<notin> set (keysToClear V1 CN) \<Longrightarrow> k \<notin> set (keysToModify V1 CN)
     \<Longrightarrow> map_of (snd (clear_loop V1 CN ks st)) k = map_of st k"
proof (induction ks arbitrary: st)
  case Nil
  then show ?case by simp
next
  case (Cons key ks)
  obtain r st1 where step: "clear_step V1 CN key st = (r, st1)" by (cases "clear_step V1 CN key st")
  with clear_step_frame [OF Cons.prems, of key st] have "map_of st1 k = map_of st k" by simp
  with Cons.IH [OF Cons.prems, of st1] step show ?case
    by (cases r) simp_all
qed

text \<open>
  Claim C1, as amended. When the resolved subscription differs from a non-empty stored
  subscription id (the caller passes \<open>envInfo.state.solution.subscriptionId\<close>),
  \<open>compareWithStateSubscription\<close> answers \<open>hasSwitchedSubscription = true\<close>; it removes the
  entries of \<open>keysToClear\<close>, removes \<open>serviceResourceId\<close> from the entries of
  \<open>keysToModify\<close>, sets \<open>solution.resourceGroupName\<close> and \<open>solution.resourceNameSuffix\<close> to
  the empty string, and stores the resolved subscription's id, name and tenant in
  \<open>solution.subscriptionId\<close>, \<open>solution.subscriptionName\<close> and \<open>solution.tenantId\<close>. Every
  other entry and every other field of \<open>solution\<close> (\<open>teamsAppTenantId\<close> among them) is
  unchanged. The names of the two key lists are parameters: they are assumed disjoint
  and different from \<open>solution\<close>, as the repository's values are.
\<close>

theorem compareWithStateSubscription_purge:
  assumes stored: "truthy stored" "Some (JStr (subscriptionId target)) \<noteq> stored"
      and sol: "map_of st ''solution'' = Some solution"
      and names: "''solution'' \<notin> set (keysToClear V1 CN) \<union> set (keysToModify V1 CN)"
                 "set (keysToClear V1 CN) \<inter> set (keysToModify V1 CN) = {}"
  shows "\<exists>st'. compareWithStateSubscription V1 CN st target stored
                  = (Ok \<lparr> hasSwitchedSubscription = True \<rparr>, st')
     \<and> (\<forall>k \<in> set (keysToClear V1 CN). map_of st' k = None)
     \<and> (\<forall>k \<in> set (keysToModify V1 CN).
            map_of st' k = map_option (AList.delete ''serviceResourceId'') (map_of st k))
     \<and> (\<forall>k. k \<notin> set (keysToClear V1 CN) \<union> set (keysToModify V1 CN) \<union> {''solution''}
            \<longrightarrow> map_of st' k = map_of st k)
     \<and> getField st' ''solution'' ''resourceGroupName'' = Some (JStr [])
     \<and> getField st' ''solution'' ''resourceNameSuffix'' = Some (JStr [])
     \<and> getField st' ''solution'' ''subscriptionId'' = Some (JStr (subscriptionId target))
     \<and> getField st' ''solution'' ''subscriptionName'' = Some (JStr (subscriptionName target))
     \<and> getField st' ''solution'' ''tenantId'' = Some (JStr (tenantId target))
     \<and> (\<forall>f. f \<notin> {''resourceGroupName'', ''resourceNameSuffix'', ''subscriptionId'',
                   ''subscriptionName'', ''tenantId''}
            \<longrightarrow> getField st' ''solution'' f = getField st ''solution'' f)"
proof -
  define sol1 where "sol1 =
    AList.update ''tenantId'' (JStr (tenantId target))
      (AList.update ''subscriptionName'' (JStr (subscriptionName target))
        (AList.update ''subscriptionId'' (JStr (subscriptionId target)) solution))"
  define st1 where "st1 = AList.update ''solution'' sol1 st"
  define sol2 where "sol2 =
    AList.update ''resourceNameSuffix'' (JStr [])
      (AList.update ''resourceGroupName'' (JStr []) sol1)"
  define st0 where "st0 = AList.update ''solution'' sol2 st1"
  have upd: "updateEnvInfoSubscription st target = (Ok (), st1)"
    using sol by (simp add: updateEnvInfoSubscription_def st1_def sol1_def)
  have sol_st1: "map_of st1 ''solution'' = Some sol1"
    by (simp add: st1_def update_conv')
  have clear: "clearEnvInfoStateResource V1 CN st1 = clear_loop V1 CN (map fst st0) st0"
    using sol_st1 by (simp add: clearEnvInfoStateResource_def st0_def sol2_def Let_def)
  have m0: "map_of st0 = (map_of st)(''solution'' \<mapsto> sol2)"
    by (simp add: st0_def st1_def update_conv')
  have dom0: "\<forall>k \<in> set (map fst st0). k \<in> set (keysToModify V1 CN) \<longrightarrow> map_of st0 k \<noteq> None"
    by (metis (no_types, lifting) domIff dom_map_of_conv_image_fst list.set_map)
  from clear_loop_effect [OF names(2) dom0]
  obtain st' where loop: "clear_loop V1 CN (map fst st0) st0 = (Ok (), st')"
    and eff: "\<forall>k. map_of st' k
        = (if k \<in> set (map fst st0) then purged V1 CN k (map_of st0 k) else map_of st0 k)"
    by blast
  have eff': "map_of st' k = purged V1 CN k (map_of st0 k)" for k
  proof (cases "k \<in> set (map fst st0)")
    case True
    with eff show ?thesis by simp
  next
    case False
    then have "map_of st0 k = None"
      by (metis domIff dom_map_of_conv_image_fst list.set_map)
    with eff False show ?thesis by (simp add: purged_None)
  qed
  have sol': "map_of st' ''solution'' = Some sol2"
    using names(1) by (simp add: eff' m0 purged_def)
  have res: "compareWithStateSubscription V1 CN st target stored
               = (Ok \<lparr> hasSwitchedSubscription = True \<rparr>, st')"
    using stored upd clear loop by (simp add: compareWithStateSubscription_def)
  have c1: "\<forall>k \<in> set (keysToClear V1 CN). map_of st' k = None"
    by (simp add: eff' purged_def)
  have c2: "\<forall>k \<in> set (keysToModify V1 CN).
              map_of st' k = map_option (AList.delete ''serviceResourceId'') (map_of st k)"
    using names by (auto simp: eff' purged_def m0)
  have c3: "\<forall>k. k \<notin> set (keysToClear V1 CN) \<union> set (keysToModify V1 CN) \<union> {''solution''}
              \<longrightarrow> map_of st' k = map_of st k"
    by (simp add: eff' purged_def m0)
  have c4: "getField st' ''solution'' ''resourceGroupName'' = Some (JStr [])"
           "getField st' ''solution'' ''resourceNameSuffix'' = Some (JStr [])"
           "getField st' ''solution'' ''subscriptionId'' = Some (JStr (subscriptionId target))"
           "getField st' ''solution'' ''subscriptionName'' = Some (JStr (subscriptionName target))"
           "getField st' ''solution'' ''tenantId'' = Some (JStr (tenantId target))"
    by (simp_all add: getField_def sol' sol2_def sol1_def update_conv')
  have c5: "\<forall>f. f \<notin> {''resourceGroupName'', ''resourceNameSuffix'', ''subscriptionId'',
                   ''subscriptionName'', ''tenantId''}
            \<longrightarrow> getField st' ''solution'' f = getField st ''solution'' f"
    by (simp add: getField_def sol' sol sol2_def sol1_def update_conv')
  from res c1 c2 c3 c4 c5 show ?thesis by blast
qed

text \<open>The evaluation of the example: subscription \<open>sub-2\<close> replaces \<open>sub-1\<close>.\<close>

lemma example_compare:
  "compareWithStateSubscription teamsfx_plugins teamsfx_components example_state
     other_subscription (getField example_state ''solution'' ''subscriptionId'')
   = (Ok \<lparr> hasSwitchedSubscription = True \<rparr>,
      [ (''solution'',
          [ (''subscriptionId'', JStr ''sub-2''), (''teamsAppTenantId'', JStr ''m365-tenant''),
            (''resourceGroupName'', JStr []), (''location'', JStr ''eastus''),
            (''resourceNameSuffix'', JStr []), (''subscriptionName'', JStr ''Second''),
            (''tenantId'', JStr ''azure-tenant'') ]),
        (''fx-resource-appstudio'', [ (''tenantId'', JStr ''m365-tenant'') ]),
        (''fx-resource-apim'', [ (''productResourceId'', JStr ''product-1'') ]) ])"
  by (simp add: compareWithStateSubscription_def updateEnvInfoSubscription_def
      clearEnvInfoStateResource_def clear_step_def keysToClear_def keysToModify_def
      example_state_def other_subscription_def getField_def teamsfx_plugins_def
      teamsfx_components_def Let_def)


text \<open>
  Claim C1 as stated fails: \<open>solution.subscriptionId\<close> is none of the enumerated keys,
  and the switch changes it.
\<close>

theorem compareWithStateSubscription_changes_subscriptionId:
  "fst (compareWithStateSubscription teamsfx_plugins teamsfx_components example_state
          other_subscription (getField example_state ''solution'' ''subscriptionId''))
     = Ok \<lparr> hasSwitchedSubscription = True \<rparr>
   \<and> getField example_state ''solution'' ''subscriptionId'' = Some (JStr ''sub-1'')
   \<and> getField
        (snd (compareWithStateSubscription teamsfx_plugins teamsfx_components example_state
               other_subscription (getField example_state ''solution'' ''subscriptionId'')))
        ''solution'' ''subscriptionId'' = Some (JStr ''sub-2'')"
  by (simp add: example_compare) (simp add: getField_def example_state_def)

theorem compareWithStateSubscription_purge_witness:
  "truthy (getField example_state ''solution'' ''subscriptionId'')
   \<and> map_of (snd (compareWithStateSubscription teamsfx_plugins teamsfx_components example_state
          other_subscription (getField example_state ''solution'' ''subscriptionId'')))
        ''fx-resource-bot'' = None
   \<and> map_of (snd (compareWithStateSubscription teamsfx_plugins teamsfx_components example_state
          other_subscription (getField example_state ''solution'' ''subscriptionId'')))
        ''fx-resource-appstudio'' = map_of example_state ''fx-resource-appstudio''
   \<and> getField (snd (compareWithStateSubscription teamsfx_plugins teamsfx_components example_state
          other_subscription (getField example_state ''solution'' ''subscriptionId'')))
        ''solution'' ''teamsAppTenantId'' = Some (JStr ''m365-tenant'')"
proof -
  let ?stored = "getField example_state ''solution'' ''subscriptionId''"
  have stored: "?stored = Some (JStr ''sub-1'')"
    by (simp add: getField_def example_state_def)
  have h1: "truthy ?stored" by (simp add: stored)
  have h2: "Some (JStr (subscriptionId other_subscription)) \<noteq> ?stored"
    by (simp add: stored other_subscription_def)
  have h3: "map_of example_state ''solution'' = Some (the (map_of example_state ''solution''))"
    by (simp add: example_state_def)
  have h4: "''solution'' \<notin> set (keysToClear teamsfx_plugins teamsfx_components)
              \<union> set (keysToModify teamsfx_plugins teamsfx_components)"
    by (simp add: keysToClear_def keysToModify_def teamsfx_plugins_def teamsfx_components_def)
  have h5: "set (keysToClear teamsfx_plugins teamsfx_components)
              \<inter> set (keysToModify teamsfx_plugins teamsfx_components) = {}"
    by (simp add: keysToClear_def keysToModify_def teamsfx_plugins_def teamsfx_components_def)
  from compareWithStateSubscription_purge [OF h1 h2 h3 h4 h5]
  obtain st' where
    res: "compareWithStateSubscription teamsfx_plugins teamsfx_components example_state
            other_subscription ?stored = (Ok \<lparr> hasSwitchedSubscription = True \<rparr>, st')"
    and cleared: "\<forall>k \<in> set (keysToClear teamsfx_plugins teamsfx_components). map_of st' k = None"
    and kept: "\<forall>k. k \<notin> set (keysToClear teamsfx_plugins teamsfx_components)
                      \<union> set (keysToModify teamsfx_plugins teamsfx_components) \<union> {''solution''}
                 \<longrightarrow> map_of st' k = map_of example_state k"
    and fields: "\<forall>f. f \<notin> {''resourceGroupName'', ''resourceNameSuffix'', ''subscriptionId'',
                   ''subscriptionName'', ''tenantId''}
            \<longrightarrow> getField st' ''solution'' f = getField example_state ''solution'' f"
    by (elim exE conjE) (rule that, assumption+)
  have bot: "map_of st' ''fx-resource-bot'' = None"
    using cleared by (simp add: keysToClear_def teamsfx_plugins_def)
  have app: "map_of st' ''fx-resource-appstudio'' = map_of example_state ''fx-resource-appstudio''"
    using kept [rule_format, of "''fx-resource-appstudio''"]
    by (simp add: keysToClear_def keysToModify_def teamsfx_plugins_def teamsfx_components_def)
  have tenant: "getField st' ''solution'' ''teamsAppTenantId'' = Some (JStr ''m365-tenant'')"
    using fields [rule_format, of "''teamsAppTenantId''"]
    by (simp add: getField_def example_state_def)
  from h1 bot app tenant show ?thesis by (simp add: res)
qed

section \<open>fillInAzureConfigs: resource name suffix and resource group\<close>

lemma update_and_pass_Ok:
  assumes "update_and_pass st info = (Ok r, st1)"
  shows "\<not> hasSwitchedSubscription r
         \<and> getField st1 ''solution'' ''resourceNameSuffix'' = getField st ''solution'' ''resourceNameSuffix''
         \<and> map_of st1 ''solution'' \<noteq> None"
  using assms
  by (auto simp: update_and_pass_def updateEnvInfoSubscription_def getField_def update_conv'
      split: option.splits)

lemma compareWithStateSubscription_Ok:
  assumes res: "compareWithStateSubscription V1 CN st target stored = (Ok r, st1)"
      and names: "''solution'' \<notin> set (keysToClear V1 CN) \<union> set (keysToModify V1 CN)"
  shows "getField st1 ''solution'' ''resourceNameSuffix''
           = (if hasSwitchedSubscription r then Some (JStr [])
              else getField st ''solution'' ''resourceNameSuffix'')
         \<and> map_of st1 ''solution'' \<noteq> None"
proof (cases "truthy stored \<and> Some (JStr (subscriptionId target)) \<noteq> stored")
  case False
  with res show ?thesis
    by (auto simp: compareWithStateSubscription_def updateEnvInfoSubscription_def getField_def
        update_conv' split: option.splits)
next
  case True
  from res True obtain solution where sol: "map_of st ''solution'' = Some solution"
    by (cases "map_of st ''solution''")
       (auto simp: compareWithStateSubscription_def updateEnvInfoSubscription_def)
  define sol1 where "sol1 =
    AList.update ''tenantId'' (JStr (tenantId target))
      (AList.update ''subscriptionName'' (JStr (subscriptionName target))
        (AList.update ''subscriptionId'' (JStr (subscriptionId target)) solution))"
  define sol2 where "sol2 =
    AList.update ''resourceNameSuffix'' (JStr [])
      (AList.update ''resourceGroupName'' (JStr []) sol1)"
  define st0 where "st0 = AList.update ''solution'' sol2 (AList.update ''solution'' sol1 st)"
  have upd: "updateEnvInfoSubscription st target = (Ok (), AList.update ''solution'' sol1 st)"
    using sol by (simp add: updateEnvInfoSubscription_def sol1_def)
  have clear: "clearEnvInfoStateResource V1 CN (AList.update ''solution'' sol1 st)
                 = clear_loop V1 CN (map fst st0) st0"
    by (simp add: clearEnvInfoStateResource_def st0_def sol2_def Let_def update_conv')
  obtain q st2 where loop: "clear_loop V1 CN (map fst st0) st0 = (q, st2)"
    by (cases "clear_loop V1 CN (map fst st0) st0")
  from res True upd clear loop have r: "r = \<lparr> hasSwitchedSubscription = True \<rparr>" and st1: "st1 = st2"
    by (auto simp: compareWithStateSubscription_def split: res.splits)
  from names have "map_of (snd (clear_loop V1 CN (map fst st0) st0)) ''solution'' = map_of st0 ''solution''"
    by (intro clear_loop_frame) auto
  with loop st1 have "map_of st1 ''solution'' = Some sol2"
    by (simp add: st0_def update_conv')
  then show ?thesis
    by (simp add: r getField_def sol2_def update_conv')
qed

lemma checkProvisionSubscription_Ok:
  assumes res: "checkProvisionSubscriptionWhenSwitchAccountEnabled V1 CN W envName cfg st = (Ok r, st1)"
      and names: "''solution'' \<notin> set (keysToClear V1 CN) \<union> set (keysToModify V1 CN)"
  shows "getField st1 ''solution'' ''resourceNameSuffix''
           = (if hasSwitchedSubscription r then Some (JStr [])
              else getField st ''solution'' ''resourceNameSuffix'')
         \<and> map_of st1 ''solution'' \<noteq> None"
  using res
  unfolding checkProvisionSubscriptionWhenSwitchAccountEnabled_def Let_def
  by (auto split: option.splits if_splits
      dest!: update_and_pass_Ok compareWithStateSubscription_Ok [OF _ names])

text \<open>
  Claim C8, as amended. On a successful return of \<open>fillInAzureConfigs\<close> the suffix in the
  state is the config file's suffix when that is set; otherwise the suffix already in the
  state, when one is set and the run found no subscription switch; otherwise (both
  absent, or the switch has blanked the stored suffix) the first six characters of a
  fresh \<open>uuidv4()\<close>.
\<close>

theorem fillInAzureConfigs_resourceNameSuffix:
  assumes res: "fillInAzureConfigs V1 CN W inp envName cfg st = (Ok r, st')"
      and names: "''solution'' \<notin> set (keysToClear V1 CN) \<union> set (keysToModify V1 CN)"
  shows "getField st' ''solution'' ''resourceNameSuffix''
           = Some (if truthyS (configResourceNameSuffix cfg)
                   then JStr (the (configResourceNameSuffix cfg))
                   else if truthy (getField st ''solution'' ''resourceNameSuffix'')
                           \<and> \<not> hasSwitchedSubscription r
                   then the (getField st ''solution'' ''resourceNameSuffix'')
                   else JStr (take 6 (uuidv4 W)))"
proof -
  from res obtain r0 st1 where
    check: "checkProvisionSubscriptionWhenSwitchAccountEnabled V1 CN W envName cfg st = (Ok r0, st1)"
    by (cases "checkProvisionSubscriptionWhenSwitchAccountEnabled V1 CN W envName cfg st")
       (auto simp: fillInAzureConfigs_def split: res.splits)
  from checkProvisionSubscription_Ok [OF check names]
  have suffix1: "getField st1 ''solution'' ''resourceNameSuffix''
                   = (if hasSwitchedSubscription r0 then Some (JStr [])
                      else getField st ''solution'' ''resourceNameSuffix'')"
    and "map_of st1 ''solution'' \<noteq> None"
    by simp_all
  then obtain solution where sol: "map_of st1 ''solution'' = Some solution" by auto
  from res check sol obtain tok where cred: "getAccountCredentialAsync W = Some tok"
    by (cases "getAccountCredentialAsync W") (auto simp: fillInAzureConfigs_def)
  from res check sol cred obtain info where rg: "resolveResourceGroup W inp envName cfg st1 = Ok info"
    by (cases "resolveResourceGroup W inp envName cfg st1") (auto simp: fillInAzureConfigs_def)
  from res have r: "hasSwitchedSubscription r = hasSwitchedSubscription r0"
    and st': "st' = AList.update ''solution''
        (AList.update ''resourceNameSuffix''
          (resourceNameSuffixFor W cfg
            (AList.update ''location'' (JStr (rg_location info))
              (AList.update ''resourceGroupName'' (JStr (rg_name info))
                (AList.update ''needCreateResourceGroup'' (JBool (createNewResourceGroup info))
                   solution))))
          (AList.update ''location'' (JStr (rg_location info))
            (AList.update ''resourceGroupName'' (JStr (rg_name info))
              (AList.update ''needCreateResourceGroup'' (JBool (createNewResourceGroup info))
                 solution)))) st1"
    by (auto simp: fillInAzureConfigs_def Let_def check sol cred rg)
  have old: "map_of solution ''resourceNameSuffix''
               = (if hasSwitchedSubscription r0 then Some (JStr [])
                  else getField st ''solution'' ''resourceNameSuffix'')"
    using suffix1 by (simp add: getField_def sol)
  have "getField st' ''solution'' ''resourceNameSuffix''
          = Some (resourceNameSuffixFor W cfg
              (AList.update ''location'' (JStr (rg_location info))
                (AList.update ''resourceGroupName'' (JStr (rg_name info))
                  (AList.update ''needCreateResourceGroup'' (JBool (createNewResourceGroup info))
                     solution))))"
    unfolding st' by (simp add: getField_def update_conv')
  then show ?thesis
    by (simp add: resourceNameSuffixFor_def Let_def configResourceNameSuffix_def update_conv'
        old r)
qed

lemma example_fill_switched:
  "fillInAzureConfigs teamsfx_plugins teamsfx_components (example_world other_subscription)
     example_inputs ''dev'' no_config example_state
   = (Ok \<lparr> hasSwitchedSubscription = True \<rparr>,
      [ (''solution'',
          [ (''subscriptionId'', JStr ''sub-2''), (''teamsAppTenantId'', JStr ''m365-tenant''),
            (''resourceGroupName'', JStr ''app-dev-rg''), (''location'', JStr ''westus''),
            (''resourceNameSuffix'', JStr ''0f8fad''), (''subscriptionName'', JStr ''Second''),
            (''tenantId'', JStr ''azure-tenant''), (''needCreateResourceGroup'', JBool True) ]),
        (''fx-resource-appstudio'', [ (''tenantId'', JStr ''m365-tenant'') ]),
        (''fx-resource-apim'', [ (''productResourceId'', JStr ''product-1'') ]) ])"
  by (simp add: fillInAzureConfigs_def checkProvisionSubscriptionWhenSwitchAccountEnabled_def
      compareWithStateSubscription_def updateEnvInfoSubscription_def
      clearEnvInfoStateResource_def clear_step_def keysToClear_def keysToModify_def
      resolveResourceGroup_def resourceNameSuffixFor_def truthyS_def
      example_state_def other_subscription_def example_world_def example_inputs_def
      no_config_def getField_def teamsfx_plugins_def teamsfx_components_def Let_def)

text \<open>
  Claim C8 as stated fails: the state holds the suffix \<open>abc123\<close>, the run finds the
  subscription switched, and \<open>fillInAzureConfigs\<close> stores a fresh suffix.
\<close>

theorem fillInAzureConfigs_mints_again_after_switch:
  "getField example_state ''solution'' ''resourceNameSuffix'' = Some (JStr ''abc123'')
   \<and> configResourceNameSuffix no_config = None
   \<and> fst (fillInAzureConfigs teamsfx_plugins teamsfx_components (example_world other_subscription)
            example_inputs ''dev'' no_config example_state)
       = Ok \<lparr> hasSwitchedSubscription = True \<rparr>
   \<and> getField
        (snd (fillInAzureConfigs teamsfx_plugins teamsfx_components
               (example_world other_subscription) example_inputs ''dev'' no_config example_state))
        ''solution'' ''resourceNameSuffix'' = Some (JStr ''0f8fad'')"
  by (simp add: example_fill_switched)
     (simp add: getField_def example_state_def configResourceNameSuffix_def no_config_def)

lemma example_fill_same:
  "fillInAzureConfigs teamsfx_plugins teamsfx_components (example_world first_subscription)
     example_inputs ''dev'' no_config example_state
   = (Ok \<lparr> hasSwitchedSubscription = False \<rparr>,
      [ (''solution'',
          [ (''subscriptionId'', JStr ''sub-1''), (''teamsAppTenantId'', JStr ''m365-tenant''),
            (''resourceGroupName'', JStr ''app-dev-rg''), (''location'', JStr ''eastus''),
            (''resourceNameSuffix'', JStr ''abc123''), (''subscriptionName'', JStr ''First''),
            (''tenantId'', JStr ''azure-tenant''), (''needCreateResourceGroup'', JBool False) ]),
        (''fx-resource-appstudio'', [ (''tenantId'', JStr ''m365-tenant'') ]),
        (''fx-resource-bot'', [ (''botId'', JStr ''bot-1'') ]),
        (''fx-resource-apim'',
          [ (''serviceResourceId'', JStr ''apim-1''), (''productResourceId'', JStr ''product-1'') ]) ])"
  by (simp add: fillInAzureConfigs_def checkProvisionSubscriptionWhenSwitchAccountEnabled_def
      compareWithStateSubscription_def updateEnvInfoSubscription_def
      resolveResourceGroup_def resourceNameSuffixFor_def truthyS_def
      example_state_def first_subscription_def example_world_def example_inputs_def
      no_config_def getField_def Let_def)

theorem fillInAzureConfigs_resourceNameSuffix_witness:
  "''solution'' \<notin> set (keysToClear teamsfx_plugins teamsfx_components)
                  \<union> set (keysToModify teamsfx_plugins teamsfx_components)
   \<and> fst (fillInAzureConfigs teamsfx_plugins teamsfx_components (example_world first_subscription)
            example_inputs ''dev'' no_config example_state)
       = Ok \<lparr> hasSwitchedSubscription = False \<rparr>
   \<and> getField
        (snd (fillInAzureConfigs teamsfx_plugins teamsfx_components
               (example_world first_subscription) example_inputs ''dev'' no_config example_state))
        ''solution'' ''resourceNameSuffix'' = Some (JStr ''abc123'')"
proof -
  have names: "''solution'' \<notin> set (keysToClear teamsfx_plugins teamsfx_components)
                  \<union> set (keysToModify teamsfx_plugins teamsfx_components)"
    by (simp add: keysToClear_def keysToModify_def teamsfx_plugins_def teamsfx_components_def)
  have stored: "getField example_state ''solution'' ''resourceNameSuffix'' = Some (JStr ''abc123'')"
    by (simp add: getField_def example_state_def)
  have cfg: "\<not> truthyS (configResourceNameSuffix no_config)"
    by (simp add: configResourceNameSuffix_def no_config_def truthyS_def)
  from fillInAzureConfigs_resourceNameSuffix [OF example_fill_same names]
  have "getField
          (snd (fillInAzureConfigs teamsfx_plugins teamsfx_components
                 (example_world first_subscription) example_inputs ''dev'' no_config example_state))
          ''solution'' ''resourceNameSuffix'' = Some (JStr ''abc123'')"
    by (simp add: example_fill_same stored cfg)
  with names show ?thesis by (simp add: example_fill_same)
qed

lemma fillInAzureConfigs_after_check:
  assumes "checkProvisionSubscriptionWhenSwitchAccountEnabled V1 CN W envName cfg st = (Ok r0, st1)"
      and "getAccountCredentialAsync W = Some token"
      and "map_of st1 ''solution'' = Some solution"
  shows "fillInAzureConfigs V1 CN W inp envName cfg st
           = (case resolveResourceGroup W inp envName cfg st1 of
                Err e \<Rightarrow> (Err e, st1)
              | Throw x \<Rightarrow> (Throw x, st1)
              | Ok info \<Rightarrow>
                  (Ok \<lparr> hasSwitchedSubscription = hasSwitchedSubscription r0 \<rparr>,
                   AList.update ''solution''
                     (AList.update ''resourceNameSuffix''
                        (resourceNameSuffixFor W cfg
                           (AList.update ''location'' (JStr (rg_location info))
                              (AList.update ''resourceGroupName'' (JStr (rg_name info))
                                 (AList.update ''needCreateResourceGroup''
                                    (JBool (createNewResourceGroup info)) solution))))
                        (AList.update ''location'' (JStr (rg_location info))
                           (AList.update ''resourceGroupName'' (JStr (rg_name info))
                              (AList.update ''needCreateResourceGroup''
                                 (JBool (createNewResourceGroup info)) solution))))
                     st1))"
  using assms by (simp add: fillInAzureConfigs_def Let_def split: res.splits)

lemma fillInAzureConfigs_written:
  assumes "checkProvisionSubscriptionWhenSwitchAccountEnabled V1 CN W envName cfg st = (Ok r0, st1)"
      and "getAccountCredentialAsync W = Some token"
      and "map_of st1 ''solution'' = Some solution"
      and "resolveResourceGroup W inp envName cfg st1 = Ok info"
  shows "resourceGroupWritten (fillInAzureConfigs V1 CN W inp envName cfg st) info"
  by (simp add: fillInAzureConfigs_after_check [OF assms(1-3)] assms(4) resourceGroupWritten_def
      getField_def update_conv')

lemma fillInAzureConfigs_failed:
  assumes "checkProvisionSubscriptionWhenSwitchAccountEnabled V1 CN W envName cfg st = (Ok r0, st1)"
      and "getAccountCredentialAsync W = Some token"
      and "map_of st1 ''solution'' = Some solution"
      and "resolveResourceGroup W inp envName cfg st1 = Err e"
  shows "fillInAzureConfigs V1 CN W inp envName cfg st = (Err e, st1)"
  by (simp add: fillInAzureConfigs_after_check [OF assms(1-3)] assms(4))

text \<open>
  Claim C5, as amended. Once the subscription check has passed and the Azure credential
  is there, \<open>fillInAzureConfigs\<close> takes the resource group from the first source that is
  present: \<open>inputs.targetResourceGroupName\<close>; then \<open>config.azure.resourceGroupName\<close>; then
  the name in the state, provided the state also holds a location (its existence is
  checked again, and the group is created anew when it is gone); and the prompt
  otherwise. A name from the inputs or from the config file that does not exist ends the
  run with the user error \<open>ResourceGroupNotFound\<close>, the state as the subscription check
  left it.
\<close>

theorem fillInAzureConfigs_resource_group_precedence:
  fixes inp :: inputs
  assumes check:
      "checkProvisionSubscriptionWhenSwitchAccountEnabled V1 CN W envName cfg st = (Ok r0, st1)"
    and cred: "getAccountCredentialAsync W = Some token"
    and names: "''solution'' \<notin> set (keysToClear V1 CN) \<union> set (keysToModify V1 CN)"
  defines "result \<equiv> fillInAzureConfigs V1 CN W inp envName cfg st"
    and "rmClient \<equiv> js_string (getField st1 ''solution'' ''subscriptionId'')"
    and "fromInputs \<equiv> targetResourceGroupName inp"
    and "fromConfig \<equiv> (case azure cfg of None \<Rightarrow> None | Some a \<Rightarrow> azure_resourceGroupName a)"
    and "nameInState \<equiv> getField st1 ''solution'' ''resourceGroupName''"
    and "locationInState \<equiv> getField st1 ''solution'' ''location''"
  shows
    "(truthyS fromInputs \<longrightarrow>
        (\<forall>info. getResourceGroupInfo W rmClient (the fromInputs) = Ok (Some info)
             \<longrightarrow> resourceGroupWritten result info)
        \<and> (getResourceGroupInfo W rmClient (the fromInputs) = Ok None
             \<longrightarrow> resourceGroupNotFound result \<and> snd result = st1))
     \<and> (\<not> truthyS fromInputs \<and> truthyS fromConfig \<longrightarrow>
        (\<forall>info. getResourceGroupInfo W rmClient (the fromConfig) = Ok (Some info)
             \<longrightarrow> resourceGroupWritten result info)
        \<and> (getResourceGroupInfo W rmClient (the fromConfig) = Ok None
             \<longrightarrow> resourceGroupNotFound result \<and> snd result = st1)
        \<and> (\<forall>e. getResourceGroupInfo W rmClient (the fromConfig) = Err e
             \<longrightarrow> result = (Err e, st1)))
     \<and> (\<not> truthyS fromInputs \<and> \<not> truthyS fromConfig
          \<and> truthy nameInState \<and> truthy locationInState \<longrightarrow>
        (\<forall>exist. checkResourceGroupExistence W rmClient (js_string nameInState) = Ok exist
             \<longrightarrow> resourceGroupWritten result
                   \<lparr> createNewResourceGroup = \<not> exist, rg_name = js_string nameInState,
                     rg_location = js_string locationInState \<rparr>)
        \<and> (\<forall>e. checkResourceGroupExistence W rmClient (js_string nameInState) = Err e
             \<longrightarrow> result = (Err e, st1)))
     \<and> (\<not> truthyS fromInputs \<and> \<not> truthyS fromConfig
          \<and> \<not> (truthy nameInState \<and> truthy locationInState) \<longrightarrow>
        (\<forall>info. askResourceGroupInfo W rmClient (snakeCaseAppName W @ ''-'' @ envName @ ''-rg'') = Ok info
             \<longrightarrow> resourceGroupWritten result info)
        \<and> (\<forall>e. askResourceGroupInfo W rmClient (snakeCaseAppName W @ ''-'' @ envName @ ''-rg'') = Err e
             \<longrightarrow> result = (Err e, st1)))"
proof -
  from checkProvisionSubscription_Ok [OF check names]
  obtain solution where sol: "map_of st1 ''solution'' = Some solution" by auto
  note written = fillInAzureConfigs_written [OF check cred sol, of inp, folded result_def]
  note failed = fillInAzureConfigs_failed [OF check cred sol, of inp, folded result_def]
  have not_found: "resourceGroupNotFound result"
    if "resolveResourceGroup W inp envName cfg st1 = Err (UserError ''core'' ''ResourceGroupNotFound'' m)"
    for m
    using failed [OF that] by (simp add: resourceGroupNotFound_def)
  have untouched: "snd result = st1"
    if "resolveResourceGroup W inp envName cfg st1 = Err (UserError ''core'' ''ResourceGroupNotFound'' m)"
    for m
    using failed [OF that] by simp
  have A: "truthyS fromInputs \<longrightarrow>
        (\<forall>info. getResourceGroupInfo W rmClient (the fromInputs) = Ok (Some info)
             \<longrightarrow> resourceGroupWritten result info)
        \<and> (getResourceGroupInfo W rmClient (the fromInputs) = Ok None
             \<longrightarrow> resourceGroupNotFound result \<and> snd result = st1)"
    by (intro impI conjI allI; (rule written | rule not_found | rule untouched))
       (simp_all add: resolveResourceGroup_def Let_def fromInputs_def rmClient_def)
  have B: "\<not> truthyS fromInputs \<and> truthyS fromConfig \<longrightarrow>
        (\<forall>info. getResourceGroupInfo W rmClient (the fromConfig) = Ok (Some info)
             \<longrightarrow> resourceGroupWritten result info)
        \<and> (getResourceGroupInfo W rmClient (the fromConfig) = Ok None
             \<longrightarrow> resourceGroupNotFound result \<and> snd result = st1)
        \<and> (\<forall>e. getResourceGroupInfo W rmClient (the fromConfig) = Err e
             \<longrightarrow> result = (Err e, st1))"
    by (intro impI conjI allI; (rule written | rule not_found | rule untouched | rule failed))
       (simp_all add: resolveResourceGroup_def Let_def fromInputs_def fromConfig_def rmClient_def)
  have C: "\<not> truthyS fromInputs \<and> \<not> truthyS fromConfig
          \<and> truthy nameInState \<and> truthy locationInState \<longrightarrow>
        (\<forall>exist. checkResourceGroupExistence W rmClient (js_string nameInState) = Ok exist
             \<longrightarrow> resourceGroupWritten result
                   \<lparr> createNewResourceGroup = \<not> exist, rg_name = js_string nameInState,
                     rg_location = js_string locationInState \<rparr>)
        \<and> (\<forall>e. checkResourceGroupExistence W rmClient (js_string nameInState) = Err e
             \<longrightarrow> result = (Err e, st1))"
    by (intro impI conjI allI; (rule written | rule failed))
       (simp_all add: resolveResourceGroup_def Let_def fromInputs_def fromConfig_def rmClient_def
          nameInState_def locationInState_def)
  have D: "\<not> truthyS fromInputs \<and> \<not> truthyS fromConfig
          \<and> \<not> (truthy nameInState \<and> truthy locationInState) \<longrightarrow>
        (\<forall>info. askResourceGroupInfo W rmClient (snakeCaseAppName W @ ''-'' @ envName @ ''-rg'') = Ok info
             \<longrightarrow> resourceGroupWritten result info)
        \<and> (\<forall>e. askResourceGroupInfo W rmClient (snakeCaseAppName W @ ''-'' @ envName @ ''-rg'') = Err e
             \<longrightarrow> result = (Err e, st1))"
    by (intro impI conjI allI; (rule written | rule failed))
       (auto simp: resolveResourceGroup_def Let_def fromInputs_def fromConfig_def rmClient_def
          nameInState_def locationInState_def)
  from A B C D show ?thesis by (intro conjI)
qed

lemma example_check_same:
  "checkProvisionSubscriptionWhenSwitchAccountEnabled teamsfx_plugins teamsfx_components
     (example_world first_subscription) ''dev'' no_config example_state
   = (Ok \<lparr> hasSwitchedSubscription = False \<rparr>,
      [ (''solution'',
          [ (''subscriptionId'', JStr ''sub-1''), (''teamsAppTenantId'', JStr ''m365-tenant''),
            (''resourceGroupName'', JStr ''app-dev-rg''), (''location'', JStr ''eastus''),
            (''resourceNameSuffix'', JStr ''abc123''), (''subscriptionName'', JStr ''First''),
            (''tenantId'', JStr ''azure-tenant'') ]),
        (''fx-resource-appstudio'', [ (''tenantId'', JStr ''m365-tenant'') ]),
        (''fx-resource-bot'', [ (''botId'', JStr ''bot-1'') ]),
        (''fx-resource-apim'',
          [ (''serviceResourceId'', JStr ''apim-1''), (''productResourceId'', JStr ''product-1'') ]) ])"
  by (simp add: checkProvisionSubscriptionWhenSwitchAccountEnabled_def
      compareWithStateSubscription_def updateEnvInfoSubscription_def truthyS_def
      example_state_def first_subscription_def example_world_def no_config_def Let_def)

theorem fillInAzureConfigs_resource_group_precedence_witness:
  "fst (checkProvisionSubscriptionWhenSwitchAccountEnabled teamsfx_plugins teamsfx_components
          (example_world first_subscription) ''dev'' no_config example_state)
     = Ok \<lparr> hasSwitchedSubscription = False \<rparr>
   \<and> targetResourceGroupName example_inputs = None
   \<and> azure no_config = None
   \<and> getField example_state ''solution'' ''resourceGroupName'' = Some (JStr ''app-dev-rg'')
   \<and> getField example_state ''solution'' ''location'' = Some (JStr ''eastus'')
   \<and> resourceGroupWritten
        (fillInAzureConfigs teamsfx_plugins teamsfx_components (example_world first_subscription)
           example_inputs ''dev'' no_config example_state)
        \<lparr> createNewResourceGroup = False, rg_name = ''app-dev-rg'', rg_location = ''eastus'' \<rparr>"
proof -
  have cred: "getAccountCredentialAsync (example_world first_subscription)
                = Some \<lparr> username = Some ''user@example.com'' \<rparr>"
    by (simp add: example_world_def)
  have names: "''solution'' \<notin> set (keysToClear teamsfx_plugins teamsfx_components)
                  \<union> set (keysToModify teamsfx_plugins teamsfx_components)"
    by (simp add: keysToClear_def keysToModify_def teamsfx_plugins_def teamsfx_components_def)
  have written: "resourceGroupWritten
        (fillInAzureConfigs teamsfx_plugins teamsfx_components (example_world first_subscription)
           example_inputs ''dev'' no_config example_state)
        \<lparr> createNewResourceGroup = False, rg_name = ''app-dev-rg'', rg_location = ''eastus'' \<rparr>"
    using fillInAzureConfigs_resource_group_precedence
            [OF example_check_same cred names, of example_inputs]
    by (auto simp: example_inputs_def no_config_def truthyS_def getField_def example_world_def)
  have inputs: "targetResourceGroupName example_inputs = None" "azure no_config = None"
    by (simp_all add: example_inputs_def no_config_def)
  have stored: "getField example_state ''solution'' ''resourceGroupName'' = Some (JStr ''app-dev-rg'')"
               "getField example_state ''solution'' ''location'' = Some (JStr ''eastus'')"
    by (simp_all add: getField_def example_state_def)
  from written inputs stored show ?thesis
    by (simp add: example_check_same)
qed

lemma example_fill_no_location:
  "fillInAzureConfigs teamsfx_plugins teamsfx_components (example_world first_subscription)
     example_inputs ''dev'' no_config example_state_no_location
   = (Ok \<lparr> hasSwitchedSubscription = False \<rparr>,
      [ (''solution'',
          [ (''subscriptionId'', JStr ''sub-1''), (''resourceGroupName'', JStr ''app-dev-rg''),
            (''subscriptionName'', JStr ''First''), (''tenantId'', JStr ''azure-tenant''),
            (''needCreateResourceGroup'', JBool True), (''location'', JStr ''westus''),
            (''resourceNameSuffix'', JStr ''0f8fad'') ]) ])"
  by (simp add: fillInAzureConfigs_def checkProvisionSubscriptionWhenSwitchAccountEnabled_def
      compareWithStateSubscription_def updateEnvInfoSubscription_def
      resolveResourceGroup_def resourceNameSuffixFor_def truthyS_def
      example_state_no_location_def first_subscription_def example_world_def example_inputs_def
      no_config_def getField_def Let_def)

text \<open>
  Claim C5 as stated fails: the state names the resource group \<open>stored-rg\<close>, which exists,
  but no location; neither the inputs nor the config file name a group. The run does not
  take the stored name: it asks, and stores the group the prompt answers with.
\<close>

theorem fillInAzureConfigs_prompts_despite_stored_name:
  "targetResourceGroupName example_inputs = None
   \<and> azure no_config = None
   \<and> getField example_state_no_location ''solution'' ''resourceGroupName'' = Some (JStr ''stored-rg'')
   \<and> checkResourceGroupExistence (example_world first_subscription) ''sub-1'' ''stored-rg'' = Ok True
   \<and> fst (fillInAzureConfigs teamsfx_plugins teamsfx_components (example_world first_subscription)
            example_inputs ''dev'' no_config example_state_no_location)
       = Ok \<lparr> hasSwitchedSubscription = False \<rparr>
   \<and> getField
        (snd (fillInAzureConfigs teamsfx_plugins teamsfx_components
               (example_world first_subscription) example_inputs ''dev'' no_config
               example_state_no_location))
        ''solution'' ''resourceGroupName'' = Some (JStr ''app-dev-rg'')"
  by (simp add: example_fill_no_location)
     (simp add: getField_def example_state_no_location_def example_inputs_def no_config_def
        example_world_def)

section \<open>The consent dialog\<close>

lemma opened_append: "opened (xs @ ys) = opened xs + opened ys"
  by (induction xs rule: opened.induct) simp_all

lemma prompts_append: "prompts (xs @ ys) = prompts xs + prompts ys"
  by (induction xs rule: prompts.induct) simp_all

lemma opened_learnMoreRounds: "opened (learnMoreRounds n message items) = n"
  by (induction n) (simp_all add: learnMoreRounds_def)

lemma prompts_learnMoreRounds: "prompts (learnMoreRounds n message items) = n"
  by (induction n) (simp_all add: learnMoreRounds_def)

lemma learnMoreRounds_Suc:
  "log @ [ShowMessage message items, OpenUrl provisionDocUrl] @ learnMoreRounds k message items
     = log @ learnMoreRounds (Suc k) message items"
  by (simp add: learnMoreRounds_def)

lemma consentLoop_learnMore:
  assumes labels: "provisionText \<noteq> learnMoreText"
      and answers: "\<forall>i < k. answers (n + i) = Some learnMoreText"
  shows "consentLoop SC answers message items provisionText learnMoreText n log
           = consentLoop SC answers message items provisionText learnMoreText (n + k)
               (log @ learnMoreRounds k message items)"
  using answers
proof (induction k arbitrary: n log)
  case 0
  then show ?case by (simp add: learnMoreRounds_def)
next
  case (Suc k)
  from Suc.prems have first: "answers n = Some learnMoreText" by force
  from Suc.prems have rest: "\<forall>i < k. answers (Suc n + i) = Some learnMoreText" by force
  have "consentLoop SC answers message items provisionText learnMoreText n log
          = consentLoop SC answers message items provisionText learnMoreText (Suc n)
              (log @ [ShowMessage message items, OpenUrl provisionDocUrl])"
    using first labels by (subst consentLoop.simps) (simp add: Let_def)
  also have "\<dots> = consentLoop SC answers message items provisionText learnMoreText (Suc n + k)
              ((log @ [ShowMessage message items, OpenUrl provisionDocUrl])
                 @ learnMoreRounds k message items)"
    by (rule Suc.IH [OF rest])
  finally show ?case
    using learnMoreRounds_Suc [of log message items k] by simp
qed

lemma consentLoop_provision:
  assumes "provisionText \<noteq> learnMoreText" and "answers n = Some provisionText"
  shows "consentLoop SC answers message items provisionText learnMoreText n log
           = Some (Ok (), log @ [ShowMessage message items])"
  using assms by (subst consentLoop.simps) (simp add: Let_def)

lemma consentLoop_cancel:
  assumes "answers n \<noteq> Some provisionText" and "answers n \<noteq> Some learnMoreText"
  shows "consentLoop SC answers message items provisionText learnMoreText n log
           = Some (Err (UserError (SolutionSource SC) ''CancelProvision'' ''CancelProvision''),
                   log @ [ShowMessage message items])"
  using assms by (subst consentLoop.simps) (simp add: Let_def)

lemma consentLoop_error:
  assumes "consentLoop SC answers message items provisionText learnMoreText n log = Some y"
  shows "\<forall>e log'. y = (Err e, log')
           \<longrightarrow> e = UserError (SolutionSource SC) ''CancelProvision'' ''CancelProvision''"
  by (rule consentLoop.raw_induct
        [where P = "\<lambda>SC answers message items provisionText learnMoreText n log y.
                      \<forall>e log'. y = (Err e, log')
                        \<longrightarrow> e = UserError (SolutionSource SC) ''CancelProvision'' ''CancelProvision''",
         OF _ assms])
     (auto simp: Let_def split: if_splits)

text \<open>
  Claim C6. When the dialog is shown (the Azure credential is there, and there is a
  switch notice or an Azure resource) and its two buttons carry different labels: after
  \<open>n\<close> answers "learn more", each of which opens the documentation once and shows the
  dialog again, the answer "provision" ends the dialog with \<open>ok\<close>, \<open>n\<close> pages opened and
  \<open>n + 1\<close> dialogs shown; any other answer (none included) ends it with the user error
  named \<open>CancelProvision\<close>. The function returns no other error.
\<close>

theorem askForProvisionConsentNew_dialog:
  fixes SC :: solution_constants and envName :: string and m365AccountName :: "string option"
  assumes cred: "getAccountCredentialAsync W = Some azureToken"
      and shown: "withAzureResource
                  \<or> switchedNotice V1 CN L st switchedM365Tenant switchedSubscription \<noteq> []"
      and labels: "getLocalizedString L ''core.provision.provision'' []
                     \<noteq> getLocalizedString L ''core.provision.learnMore'' []"
      and learnMore: "\<forall>i < n. answers i = Some (getLocalizedString L ''core.provision.learnMore'' [])"
  defines "result \<equiv> askForProvisionConsentNew SC V1 CN L answers W envName st
                       switchedM365Tenant switchedSubscription m365AccountName withAzureResource"
  shows
    "(answers n = Some (getLocalizedString L ''core.provision.provision'' []) \<longrightarrow>
        (\<exists>log. result = Some (Ok (), log) \<and> opened log = n \<and> prompts log = Suc n))
     \<and> (answers n \<noteq> Some (getLocalizedString L ''core.provision.provision'' [])
          \<and> answers n \<noteq> Some (getLocalizedString L ''core.provision.learnMore'' []) \<longrightarrow>
        (\<exists>log. result
                  = Some (Err (UserError (SolutionSource SC) ''CancelProvision'' ''CancelProvision''), log)
               \<and> opened log = n \<and> prompts log = Suc n))
     \<and> (\<forall>e log. result = Some (Err e, log) \<longrightarrow>
            is_user_error e \<and> error_name e = ''CancelProvision'')"
proof -
  let ?P = "getLocalizedString L ''core.provision.provision'' []"
  let ?L = "getLocalizedString L ''core.provision.learnMore'' []"
  let ?m = "consentMessage V1 CN L azureToken envName st switchedM365Tenant switchedSubscription
              m365AccountName withAzureResource"
  let ?items = "if switchedM365Tenant \<or> switchedSubscription then [?P, ?L] else [?P]"
  have loop: "result = consentLoop SC answers ?m ?items ?P ?L 0 []"
    using cred shown by (auto simp: result_def askForProvisionConsentNew_def)
  from learnMore have "\<forall>i < n. answers (0 + i) = Some ?L" by simp
  from consentLoop_learnMore [OF labels this, of SC ?m ?items "[]"]
  have rounds: "result = consentLoop SC answers ?m ?items ?P ?L n (learnMoreRounds n ?m ?items)"
    by (simp add: loop)
  have counts: "opened (learnMoreRounds n ?m ?items @ [ShowMessage ?m ?items]) = n"
               "prompts (learnMoreRounds n ?m ?items @ [ShowMessage ?m ?items]) = Suc n"
    by (simp_all add: opened_append prompts_append opened_learnMoreRounds prompts_learnMoreRounds)
  have A: "answers n = Some ?P \<longrightarrow>
        (\<exists>log. result = Some (Ok (), log) \<and> opened log = n \<and> prompts log = Suc n)"
  proof
    assume "answers n = Some ?P"
    with labels
    have "result = Some (Ok (), learnMoreRounds n ?m ?items @ [ShowMessage ?m ?items])"
      by (simp add: rounds consentLoop_provision)
    with counts show "\<exists>log. result = Some (Ok (), log) \<and> opened log = n \<and> prompts log = Suc n"
      by blast
  qed
  have B: "answers n \<noteq> Some ?P \<and> answers n \<noteq> Some ?L \<longrightarrow>
        (\<exists>log. result
                  = Some (Err (UserError (SolutionSource SC) ''CancelProvision'' ''CancelProvision''), log)
               \<and> opened log = n \<and> prompts log = Suc n)"
  proof
    assume "answers n \<noteq> Some ?P \<and> answers n \<noteq> Some ?L"
    then have "result
        = Some (Err (UserError (SolutionSource SC) ''CancelProvision'' ''CancelProvision''),
                learnMoreRounds n ?m ?items @ [ShowMessage ?m ?items])"
      by (simp add: rounds consentLoop_cancel)
    with counts show "\<exists>log. result
                  = Some (Err (UserError (SolutionSource SC) ''CancelProvision'' ''CancelProvision''), log)
               \<and> opened log = n \<and> prompts log = Suc n"
      by blast
  qed
  have C: "\<forall>e log. result = Some (Err e, log) \<longrightarrow>
            is_user_error e \<and> error_name e = ''CancelProvision''"
  proof (intro allI impI)
    fix e log
    assume "result = Some (Err e, log)"
    then have "consentLoop SC answers ?m ?items ?P ?L 0 [] = Some (Err e, log)"
      by (simp add: loop)
    from consentLoop_error [OF this]
    have "e = UserError (SolutionSource SC) ''CancelProvision'' ''CancelProvision''" by simp
    then show "is_user_error e \<and> error_name e = ''CancelProvision''" by simp
  qed
  from A B C show ?thesis by (intro conjI)
qed

text \<open>The scenario of the tests: "learn more", then "provision".\<close>

theorem askForProvisionConsentNew_dialog_witness:
  "learn_more_then_provision 0 = Some ''Learn more''
   \<and> learn_more_then_provision 1 = Some ''Provision''
   \<and> (\<exists>log. askForProvisionConsentNew example_constants teamsfx_plugins teamsfx_components
                example_localize learn_more_then_provision (example_world first_subscription)
                ''dev'' example_state True False (Some ''m365Name'') False
              = Some (Ok (), log)
            \<and> opened log = 1 \<and> prompts log = 2)"
proof -
  have cred: "getAccountCredentialAsync (example_world first_subscription)
                = Some \<lparr> username = Some ''user@example.com'' \<rparr>"
    by (simp add: example_world_def)
  have shown: "False \<or> switchedNotice teamsfx_plugins teamsfx_components example_localize
                          example_state True False \<noteq> []"
    by (simp add: switchedNotice_def example_localize_def)
  have labels: "getLocalizedString example_localize ''core.provision.provision'' []
                  \<noteq> getLocalizedString example_localize ''core.provision.learnMore'' []"
    by (simp add: example_localize_def)
  have learnMore: "\<forall>i < 1. learn_more_then_provision i
                     = Some (getLocalizedString example_localize ''core.provision.learnMore'' [])"
    by (simp add: learn_more_then_provision_def example_localize_def)
  have provision: "learn_more_then_provision 1
                     = Some (getLocalizedString example_localize ''core.provision.provision'' [])"
    by (simp add: learn_more_then_provision_def example_localize_def)
  from askForProvisionConsentNew_dialog [OF cred shown labels learnMore,
      of example_constants "''dev''" "Some ''m365Name''"] provision
  have "\<exists>log. askForProvisionConsentNew example_constants teamsfx_plugins teamsfx_components
                example_localize learn_more_then_provision (example_world first_subscription)
                ''dev'' example_state True False (Some ''m365Name'') False
              = Some (Ok (), log)
            \<and> opened log = 1 \<and> prompts log = 2"
    by (simp add: numeral_2_eq_2)
  then show ?thesis
    by (simp add: learn_more_then_provision_def)
qed

section \<open>provisionResource: tenant switch while switching is disabled\<close>

lemma getField_ensureObject: "getField (ensureObject key st) component field = getField st component field"
  by (simp add: ensureObject_def getField_def update_conv')

text \<open>
  Claim C4. The run has a project path and has signed in to Microsoft 365, the token
  carries a tenant id, the app studio entry of the state holds a tenant id from a prior
  run, the two differ, and switching accounts is disabled. Then \<open>provisionResource\<close>
  returns the user error \<open>TeamsAppTenantIdNotRight\<close>, whose message is the localized
  \<open>error.M365AccountNotMatch\<close> for the environment's name, and its log of calls is empty:
  \<open>fillInAzureConfigs\<close> is not reached, nor is any other collaborator.
\<close>

theorem provisionResource_tenant_mismatch:
  assumes path: "projectPath inp = Some path"
      and signedIn: "m365_getAccessToken M = Ok token"
      and json: "m365_getJsonObject M = Ok (Some tokenJson)"
      and inToken: "tid tokenJson = Some (JStr t)" "t \<noteq> []"
      and stored: "truthy (getField st (appStudio V1) ''tenantId'')"
      and differ: "Some (JStr t) \<noteq> getField st (appStudio V1) ''tenantId''"
      and disabled: "\<not> doesAllowSwitchAccount PW"
  shows "\<exists>st'. provisionResource SC V1 CN L M AW PW inp envName cfg st
           = Some (Err (UserError ''Solution'' (TeamsAppTenantIdNotRight SC)
                          (getLocalizedString L ''error.M365AccountNotMatch'' [envName])),
                   st', [])
         \<and> CallFillInAzureConfigs \<notin> set (snd (snd (the
               (provisionResource SC V1 CN L M AW PW inp envName cfg st))))"
proof -
  have tenant: "getM365TenantId L M = Ok \<lparr> tenantIdInToken = t, tenantUserName = upn tokenJson \<rparr>"
    using signedIn json inToken by (simp add: getM365TenantId_def)
  have "checkM365Tenant SC V1 L M PW inp envName st
          = (Err (UserError ''Solution'' (TeamsAppTenantIdNotRight SC)
                    (getLocalizedString L ''error.M365AccountNotMatch'' [envName])),
             ensureObject ''solution'' (ensureObject (appStudio V1) st))"
    using path signedIn tenant inToken stored differ disabled
    by (simp add: checkM365Tenant_def Let_def getField_ensureObject)
  then show ?thesis
    by (simp add: provisionResource_def provisionResourceImpl_def)
qed

lemma example_tenant_mismatch_hyps:
  "projectPath example_inputs = Some ''./''"
  "m365_getAccessToken example_m365 = Ok ''token''"
  "m365_getJsonObject example_m365
     = Ok (Some \<lparr> tid = Some (JStr ''other-tenant''), upn = Some ''user@example.com'' \<rparr>)"
  "tid \<lparr> tid = Some (JStr ''other-tenant''), upn = Some ''user@example.com'' \<rparr>
     = Some (JStr ''other-tenant'')"
  "''other-tenant'' \<noteq> []"
  "truthy (getField example_state (appStudio teamsfx_plugins) ''tenantId'')"
  "Some (JStr ''other-tenant'') \<noteq> getField example_state (appStudio teamsfx_plugins) ''tenantId''"
  "\<not> doesAllowSwitchAccount (example_provision_world False Success Success)"
  by (simp_all add: example_inputs_def example_m365_def example_state_def getField_def
      teamsfx_plugins_def example_provision_world_def)

theorem provisionResource_tenant_mismatch_witness:
  "getField example_state (appStudio teamsfx_plugins) ''tenantId'' = Some (JStr ''m365-tenant'')
   \<and> getM365TenantId example_localize example_m365
       = Ok \<lparr> tenantIdInToken = ''other-tenant'', tenantUserName = Some ''user@example.com'' \<rparr>
   \<and> (\<exists>st'. provisionResource example_constants teamsfx_plugins teamsfx_components example_localize
               example_m365 (example_world first_subscription)
               (example_provision_world False Success Success) example_inputs ''dev'' no_config
               example_state
             = Some (Err (UserError ''Solution'' ''TeamsAppTenantIdNotRight''
                            (''error.M365AccountNotMatch'' @ ''dev'')), st', []))"
proof -
  have stored: "getField example_state (appStudio teamsfx_plugins) ''tenantId''
                  = Some (JStr ''m365-tenant'')"
    by (simp add: example_state_def getField_def teamsfx_plugins_def)
  have token: "getM365TenantId example_localize example_m365
       = Ok \<lparr> tenantIdInToken = ''other-tenant'', tenantUserName = Some ''user@example.com'' \<rparr>"
    by (simp add: getM365TenantId_def example_m365_def)
  from provisionResource_tenant_mismatch [OF example_tenant_mismatch_hyps,
      of example_constants teamsfx_components example_localize "example_world first_subscription"
         "''dev''" no_config]
  have "\<exists>st'. provisionResource example_constants teamsfx_plugins teamsfx_components example_localize
               example_m365 (example_world first_subscription)
               (example_provision_world False Success Success) example_inputs ''dev'' no_config
               example_state
             = Some (Err (UserError ''Solution'' ''TeamsAppTenantIdNotRight''
                            (''error.M365AccountNotMatch'' @ ''dev'')), st', [])"
    by (auto simp: example_constants_def example_localize_def)
  with stored token show ?thesis by simp
qed

section \<open>provisionResource: the flag provisionSucceeded\<close>





lemma setField_Throw: "setField key field v st = (Throw x, st') \<Longrightarrow> st' = st"
  by (auto simp: setField_def split: option.splits)















section \<open>useUserSetEnv: a missing environment\<close>

text \<open>
  C9. When the environment the user asked for does not exist: for any name other than
  the local environment's the load fails with \<open>ProjectEnvNotExistError\<close> of that name and
  nothing is created; for the local environment's name \<open>createLocalEnv\<close> is run, and when
  the environment exists afterwards the load goes on with it, on the files
  \<open>createLocalEnv\<close> left. (Were it still missing, the same error would end the load.)
\<close>

theorem useUserSetEnv_missing:
  assumes missing: "checkEnvExist EM fs path env = Ok False"
  shows "(env \<noteq> getLocalEnvName EM \<longrightarrow>
            useUserSetEnv EM fs path env = (Err (ProjectEnvNotExistError EM env), fs))
       \<and> (env = getLocalEnvName EM \<longrightarrow>
            (\<forall>created fs1.
               createLocalEnv EM fs path = (created, fs1) \<and> (\<forall>x. created \<noteq> Throw x) \<longrightarrow>
                 (checkEnvExist EM fs1 path env = Ok True \<longrightarrow>
                    useUserSetEnv EM fs path env = (Ok env, fs1))
               \<and> (checkEnvExist EM fs1 path env = Ok False \<longrightarrow>
                    useUserSetEnv EM fs path env = (Err (ProjectEnvNotExistError EM env), fs1))))"
proof (intro conjI impI allI)
  assume "env \<noteq> getLocalEnvName EM"
  with missing show "useUserSetEnv EM fs path env = (Err (ProjectEnvNotExistError EM env), fs)"
    by (simp add: useUserSetEnv_def)
next
  fix created fs1
  assume local: "env = getLocalEnvName EM"
     and run: "createLocalEnv EM fs path = (created, fs1) \<and> (\<forall>x. created \<noteq> Throw x)"
     and exists: "checkEnvExist EM fs1 path env = Ok True"
  from missing local run exists show "useUserSetEnv EM fs path env = (Ok env, fs1)"
    by (cases created) (simp_all add: useUserSetEnv_def)
next
  fix created fs1
  assume local: "env = getLocalEnvName EM"
     and run: "createLocalEnv EM fs path = (created, fs1) \<and> (\<forall>x. created \<noteq> Throw x)"
     and still: "checkEnvExist EM fs1 path env = Ok False"
  from missing local run still
  show "useUserSetEnv EM fs path env = (Err (ProjectEnvNotExistError EM env), fs1)"
    by (cases created) (simp_all add: useUserSetEnv_def)
qed

text \<open>
  The project has the environment \<open>dev\<close> only. Asking for \<open>local\<close> creates it and goes on
  with it; asking for \<open>staging\<close> fails.
\<close>

theorem useUserSetEnv_missing_witness:
  "checkEnvExist example_manager [''dev''] ''/project'' ''local'' = Ok False
   \<and> useUserSetEnv example_manager [''dev''] ''/project'' ''local''
       = (Ok ''local'', [''local'', ''dev''])
   \<and> checkEnvExist example_manager [''dev''] ''/project'' ''staging'' = Ok False
   \<and> useUserSetEnv example_manager [''dev''] ''/project'' ''staging''
       = (Err (UserError ''Core'' ''ProjectEnvNotExistError'' ''no environment staging''),
          [''dev''])"
proof -
  have local: "checkEnvExist example_manager [''dev''] ''/project'' ''local'' = Ok False"
    by (simp add: example_manager_def)
  have staging: "checkEnvExist example_manager [''dev''] ''/project'' ''staging'' = Ok False"
    by (simp add: example_manager_def)
  have created: "createLocalEnv example_manager [''dev''] ''/project'' = (Ok (), [''local'', ''dev''])"
    by (simp add: example_manager_def)
  have again: "checkEnvExist example_manager [''local'', ''dev''] ''/project'' ''local'' = Ok True"
    by (simp add: example_manager_def)
  have name: "getLocalEnvName example_manager = ''local''"
    by (simp add: example_manager_def)
  have err: "ProjectEnvNotExistError example_manager ''staging''
               = UserError ''Core'' ''ProjectEnvNotExistError'' ''no environment staging''"
    by (simp add: example_manager_def)
  from useUserSetEnv_missing [OF local] name created again
  have "useUserSetEnv example_manager [''dev''] ''/project'' ''local''
          = (Ok ''local'', [''local'', ''dev''])"
    by simp
  moreover from useUserSetEnv_missing [OF staging] name err
  have "useUserSetEnv example_manager [''dev''] ''/project'' ''staging''
          = (Err (UserError ''Core'' ''ProjectEnvNotExistError'' ''no environment staging''),
             [''dev''])"
    by simp
  ultimately show ?thesis using local staging by simp
qed

section \<open>Project settings: upgrading twice, and upgrading after a downgrade\<close>

lemma changeComponent_Nil_iff: "changeComponent n f cs = [] \<longleftrightarrow> cs = []"
  by (cases cs) simp_all

lemma connectHosting_not_Nil: "connectHosting h hosted s cs \<noteq> []"
  by (simp add: connectHosting_def getComponent_def changeComponent_Nil_iff
           split: option.splits) (auto simp: find_None_iff)

lemma addAad_Nil:
  "addAad CN ss cs = []
     \<longleftrightarrow> cs = [] \<and> ''fx-resource-aad-app-for-teams'' \<notin> set (activeResourcePlugins ss)"
  by (simp add: addAad_def)

lemma addTab_Nil:
  "addTab CN isVS ss cs = []
     \<longleftrightarrow> cs = [] \<and> ''fx-resource-frontend-hosting'' \<notin> set (activeResourcePlugins ss)"
  by (simp add: addTab_def Let_def connectHosting_not_Nil)

lemma addSpfx_Nil:
  "addSpfx ss cs = [] \<longleftrightarrow> cs = [] \<and> ''fx-resource-spfx'' \<notin> set (activeResourcePlugins ss)"
  by (simp add: addSpfx_def)

lemma addBot_Nil:
  "addBot CN me isVS ss ps cs = []
     \<longleftrightarrow> cs = [] \<and> ''fx-resource-bot'' \<notin> set (activeResourcePlugins ss)"
  by (simp add: addBot_def Let_def)

lemma addResources_Nil:
  "addResources CN ss fn cs = []
     \<longleftrightarrow> cs = [] \<and> ''fx-resource-identity'' \<notin> set (activeResourcePlugins ss)
         \<and> ''fx-resource-key-vault'' \<notin> set (activeResourcePlugins ss)
         \<and> ''fx-resource-azure-sql'' \<notin> set (activeResourcePlugins ss)
         \<and> ''fx-resource-apim'' \<notin> set (activeResourcePlugins ss)
         \<and> ''fx-resource-function'' \<notin> set (activeResourcePlugins ss)"
  by (simp add: addResources_def Let_def)

text \<open>No component is made exactly when none of the plugins the upgrade knows is active.\<close>

lemma upgradeComponents_Nil:
  "upgradeComponents CN me isVS ss ps fn = []
     \<longleftrightarrow> list_all (\<lambda>p. p \<notin> set (activeResourcePlugins ss)) upgradedPlugins"
  unfolding upgradeComponents_def addResources_Nil addBot_Nil addSpfx_Nil addTab_Nil addAad_Nil
    upgradedPlugins_def
  by auto

lemma upgradeComponents_Nil_any:
  "upgradeComponents CN me isVS ss ps fn = []
     \<Longrightarrow> upgradeComponents CN me' isVS' ss ps' fn' = []"
  by (simp add: upgradeComponents_Nil)

lemma upgrade_no_solution:
  "solutionSettings S = None \<Longrightarrow> convertProjectSettingsV2ToV3 CN H S = S"
  by (simp add: convertProjectSettingsV2ToV3_def)

lemma upgrade_has_components:
  "components S = Some (c # cs) \<Longrightarrow> convertProjectSettingsV2ToV3 CN H S = S"
  by (simp add: convertProjectSettingsV2ToV3_def split: option.splits)

text \<open>
  The shape of an upgrade that was carried out: the settings with the components made, a
  function having rewritten their connections.
\<close>

lemma upgrade_shape:
  assumes ensure: "connectionsOnly (ensureComponentConnections H)"
      and sol: "solutionSettings S = Some ss"
      and empty: "components S = None \<or> components S = Some []"
  shows "\<exists>f. convertProjectSettingsV2ToV3 CN H S
              = S \<lparr> components :=
                      Some (map (\<lambda>c. c \<lparr> connections := f c \<rparr>)
                              (upgradeComponents CN (MessageExtensionNewUIItem_id H)
                                 (isVSProject H S) ss (pluginSettings S)
                                 (defaultFunctionName S))) \<rparr>"
proof -
  let ?cs = "upgradeComponents CN (MessageExtensionNewUIItem_id H) (isVSProject H S) ss
               (pluginSettings S) (defaultFunctionName S)"
  from ensure obtain f where
    "ensureComponentConnections H (S \<lparr> components := Some ?cs \<rparr>)
       = (S \<lparr> components := Some ?cs \<rparr>)
           \<lparr> components :=
               map_option (map (\<lambda>c. c \<lparr> connections := f c \<rparr>))
                 (components (S \<lparr> components := Some ?cs \<rparr>)) \<rparr>"
    unfolding connectionsOnly_def by blast
  then have "convertProjectSettingsV2ToV3 CN H S
               = S \<lparr> components := Some (map (\<lambda>c. c \<lparr> connections := f c \<rparr>) ?cs) \<rparr>"
    using sol empty by (auto simp: convertProjectSettingsV2ToV3_def)
  then show ?thesis by blast
qed

lemma upgrade_idem:
  assumes ensure: "connectionsOnly (ensureComponentConnections H)"
  shows "convertProjectSettingsV2ToV3 CN H (convertProjectSettingsV2ToV3 CN H S)
           = convertProjectSettingsV2ToV3 CN H S"
proof (cases "solutionSettings S")
  case None
  then show ?thesis by (simp add: upgrade_no_solution)
next
  case (Some ss)
  show ?thesis
  proof (cases "components S = None \<or> components S = Some []")
    case False
    with Some have "convertProjectSettingsV2ToV3 CN H S = S"
      by (auto simp: convertProjectSettingsV2ToV3_def)
    then show ?thesis by simp
  next
    case True
    let ?cs = "upgradeComponents CN (MessageExtensionNewUIItem_id H) (isVSProject H S) ss
                 (pluginSettings S) (defaultFunctionName S)"
    from upgrade_shape [OF ensure Some True, of CN] obtain f where
      up: "convertProjectSettingsV2ToV3 CN H S
             = S \<lparr> components := Some (map (\<lambda>c. c \<lparr> connections := f c \<rparr>) ?cs) \<rparr>"
      by blast
    let ?T = "convertProjectSettingsV2ToV3 CN H S"
    show ?thesis
    proof (cases ?cs)
      case (Cons c cs)
      with up have "components ?T
                      = Some (c \<lparr> connections := f c \<rparr> # map (\<lambda>c. c \<lparr> connections := f c \<rparr>) cs)"
        by simp
      then show ?thesis by (rule upgrade_has_components)
    next
      case Nil
      with up have T: "?T = S \<lparr> components := Some [] \<rparr>" by simp
      have solT: "solutionSettings (S \<lparr> components := Some [] \<rparr>) = Some ss"
        using Some by simp
      have emptyT: "components (S \<lparr> components := Some [] \<rparr>) = None
                      \<or> components (S \<lparr> components := Some [] \<rparr>) = Some []"
        by simp
      from upgrade_shape [OF ensure solT emptyT, of CN] obtain g where
        again: "convertProjectSettingsV2ToV3 CN H (S \<lparr> components := Some [] \<rparr>)
                  = S \<lparr> components := Some [] \<rparr>
                      \<lparr> components :=
                          Some (map (\<lambda>c. c \<lparr> connections := g c \<rparr>)
                                  (upgradeComponents CN (MessageExtensionNewUIItem_id H)
                                     (isVSProject H (S \<lparr> components := Some [] \<rparr>)) ss
                                     (pluginSettings (S \<lparr> components := Some [] \<rparr>))
                                     (defaultFunctionName (S \<lparr> components := Some [] \<rparr>)))) \<rparr>"
        by blast
      have "upgradeComponents CN (MessageExtensionNewUIItem_id H)
              (isVSProject H (S \<lparr> components := Some [] \<rparr>)) ss
              (pluginSettings (S \<lparr> components := Some [] \<rparr>))
              (defaultFunctionName (S \<lparr> components := Some [] \<rparr>)) = []"
        by (rule upgradeComponents_Nil_any [OF Nil])
      with again have "convertProjectSettingsV2ToV3 CN H (S \<lparr> components := Some [] \<rparr>)
                         = S \<lparr> components := Some [] \<rparr>"
        by simp
      with T show ?thesis by simp
    qed
  qed
qed



lemma downgrade_solution:
  "components S = Some (c # cs)
     \<Longrightarrow> solutionSettings (convertProjectSettingsV3ToV2 CN H S)
           = Some (downgradeSolutionSettings CN H S)"
  by (simp add: convertProjectSettingsV3ToV2_def Let_def split: option.splits)



lemma connectionsOnly_example: "connectionsOnly (ensureComponentConnections example_helpers)"
  unfolding connectionsOnly_def
proof
  fix s :: project_settings
  have "map (\<lambda>c. c \<lparr> connections := connections c \<rparr>) cs = cs" for cs :: "component list"
    by (induction cs) simp_all
  then have "ensureComponentConnections example_helpers s
               = s \<lparr> components :=
                       map_option (map (\<lambda>c. c \<lparr> connections := connections c \<rparr>))
                         (components s) \<rparr>"
    by (cases "components s") (simp_all add: example_helpers_def)
  then show "\<exists>f. ensureComponentConnections example_helpers s
                   = s \<lparr> components :=
                           map_option (map (\<lambda>c. c \<lparr> connections := f c \<rparr>)) (components s) \<rparr>"
    by (rule exI [where x = connections])
qed

lemma example_upgrade:
  "convertProjectSettingsV2ToV3 teamsfx_components example_helpers example_settings
     = example_settings \<lparr> components := Some example_components \<rparr>"
  by (simp add: convertProjectSettingsV2ToV3_def example_settings_def example_helpers_def
        upgradeComponents_def addAad_def addTab_def addSpfx_def addBot_def addResources_def
        connectHosting_def getComponent_def newComponent_def teamsfx_components_def
        example_components_def Let_def)



text \<open>
  C2. Provided \<open>ensureComponentConnections\<close> only rewrites connections of components,
  upgrading upgraded settings gives them back: \<open>convertProjectSettingsV2ToV3\<close> applied twice
  is \<open>convertProjectSettingsV2ToV3\<close> applied once, for all settings. Settings that hold a
  non-empty \<open>components\<close> array are not changed by an upgrade at all.
\<close>

theorem convertProjectSettingsV2ToV3_idempotent:
  assumes "connectionsOnly (ensureComponentConnections H)"
  shows "convertProjectSettingsV2ToV3 CN H (convertProjectSettingsV2ToV3 CN H S)
           = convertProjectSettingsV2ToV3 CN H S
       \<and> (\<forall>c cs. components S = Some (c # cs) \<longrightarrow> convertProjectSettingsV2ToV3 CN H S = S)"
  using assms by (simp add: upgrade_idem upgrade_has_components)

text \<open>
  The example settings get three components; a second upgrade, of settings that now hold
  components, leaves them as they are.
\<close>

theorem convertProjectSettingsV2ToV3_idempotent_witness:
  "connectionsOnly (ensureComponentConnections example_helpers)
   \<and> convertProjectSettingsV2ToV3 teamsfx_components example_helpers example_settings
       = example_settings \<lparr> components := Some example_components \<rparr>
   \<and> components (example_settings \<lparr> components := Some example_components \<rparr>)
       = Some example_components
   \<and> convertProjectSettingsV2ToV3 teamsfx_components example_helpers
        (convertProjectSettingsV2ToV3 teamsfx_components example_helpers example_settings)
       = example_settings \<lparr> components := Some example_components \<rparr>"
  using convertProjectSettingsV2ToV3_idempotent
          [OF connectionsOnly_example, of teamsfx_components example_settings]
        connectionsOnly_example example_upgrade
  by simp




end
